theory Spec2Isabelle
  imports Complex_Main "HOL-Library.Sublist" "HOL-Library.Multiset"
    "HOL-Library.Char_ord" "HOL-Library.List_Lexorder"
begin

section \<open>Values of the data frame\<close>

text \<open>
  A Python float is a finite number, one of the two infinities, or NaN. pandas uses the
  float NaN as its missing-value marker, in numeric and in text columns alike, so
  \<open>NaN\<close> below is the missing sentinel of the cleaner. A finite value \<open>Fin q\<close> stands for
  the double nearest to \<open>q\<close>: the rounding to 53 bits and the sign of zero are not part
  of this model. The range of a double is part of it where a text or an int is converted
  to a float: beyond that range the conversion overflows.
\<close>

datatype pyfloat = NaN | NInf | Fin rat | PInf

text \<open>
  A cell of a data frame is a number (a 64-bit int or a double, NaN when the CSV field was
  empty) or a Python \<open>str\<close>.
\<close>

datatype cell = Num pyfloat | Str string

datatype error =
    FileNotFoundError string
  | PermissionError string
  | EmptyDataError string
  | ParserError string
  | UnicodeDecodeError string
  | ValueError string
  | AttributeError string
  | TypeError string
  | OverflowError string
  | IndexError string

text \<open>\<open>isna\<close> on a cell of a column.\<close>

fun isna :: "cell \<Rightarrow> bool" where
  "isna (Num NaN) = True"
| "isna _ = False"

subsection \<open>Float comparison and arithmetic\<close>

text \<open>Every comparison with NaN is false.\<close>

fun fle :: "pyfloat \<Rightarrow> pyfloat \<Rightarrow> bool" where
  "fle NaN _ = False"
| "fle _ NaN = False"
| "fle NInf _ = True"
| "fle _ PInf = True"
| "fle (Fin a) (Fin b) = (a \<le> b)"
| "fle _ _ = False"

definition fge :: "pyfloat \<Rightarrow> pyfloat \<Rightarrow> bool" where
  "fge x y = fle y x"

fun flt :: "pyfloat \<Rightarrow> pyfloat \<Rightarrow> bool" where
  "flt NaN _ = False"
| "flt _ NaN = False"
| "flt PInf _ = False"
| "flt _ NInf = False"
| "flt (Fin a) (Fin b) = (a < b)"
| "flt _ _ = True"

definition fgt :: "pyfloat \<Rightarrow> pyfloat \<Rightarrow> bool" where
  "fgt x y = flt y x"

text \<open>The sign of a float that is not NaN: \<open>-1\<close>, \<open>0\<close> or \<open>1\<close>.\<close>

fun fsgn :: "pyfloat \<Rightarrow> int" where
  "fsgn NaN = 0"
| "fsgn NInf = - 1"
| "fsgn PInf = 1"
| "fsgn (Fin a) = (if a < 0 then - 1 else if a = 0 then 0 else 1)"

definition inf_of_sign :: "int \<Rightarrow> pyfloat" where
  "inf_of_sign s = (if s = 0 then NaN else if s < 0 then NInf else PInf)"

fun fmul :: "pyfloat \<Rightarrow> pyfloat \<Rightarrow> pyfloat" where
  "fmul NaN _ = NaN"
| "fmul _ NaN = NaN"
| "fmul (Fin a) (Fin b) = Fin (a * b)"
| "fmul x y = inf_of_sign (fsgn x * fsgn y)"

fun fadd :: "pyfloat \<Rightarrow> pyfloat \<Rightarrow> pyfloat" where
  "fadd NaN _ = NaN"
| "fadd _ NaN = NaN"
| "fadd (Fin a) (Fin b) = Fin (a + b)"
| "fadd PInf NInf = NaN"
| "fadd NInf PInf = NaN"
| "fadd PInf _ = PInf"
| "fadd _ PInf = PInf"
| "fadd NInf _ = NInf"
| "fadd _ NInf = NInf"

text \<open>
  Division of numpy floats: dividing by zero gives an infinity or NaN and a warning, not
  an exception.
\<close>

fun fdiv :: "pyfloat \<Rightarrow> pyfloat \<Rightarrow> pyfloat" where
  "fdiv NaN _ = NaN"
| "fdiv _ NaN = NaN"
| "fdiv (Fin a) (Fin b) = (if b = 0 then inf_of_sign (fsgn (Fin a)) else Fin (a / b))"
| "fdiv (Fin a) _ = Fin 0"
| "fdiv x (Fin b) = inf_of_sign (fsgn x * (if b < 0 then - 1 else 1))"
| "fdiv _ _ = NaN"

section \<open>Python string operations\<close>

text \<open>
  A Python \<open>str\<close> is kept as its UTF-8 bytes. \<open>utf8_head\<close> reads the code point at the
  front of a text and says how many bytes it takes.
\<close>

definition is_cont :: "char \<Rightarrow> bool" where
  "is_cont c = (128 \<le> (of_char c :: nat) \<and> (of_char c :: nat) < 192)"

definition cont_bits :: "char \<Rightarrow> nat" where
  "cont_bits c = of_char c - 128"

definition utf8_head :: "string \<Rightarrow> (nat \<times> nat) option" where
  "utf8_head s =
     (case s of
        [] \<Rightarrow> None
      | c # cs \<Rightarrow>
          (let b = (of_char c :: nat)
           in if b < 128 then Some (b, 1)
              else if 192 \<le> b \<and> b < 224 then
                (case cs of
                   c1 # r \<Rightarrow>
                     if is_cont c1 then Some ((b - 192) * 64 + cont_bits c1, 2) else None
                 | _ \<Rightarrow> None)
              else if 224 \<le> b \<and> b < 240 then
                (case cs of
                   c1 # c2 # r \<Rightarrow>
                     if is_cont c1 \<and> is_cont c2
                     then Some (((b - 224) * 64 + cont_bits c1) * 64 + cont_bits c2, 3)
                     else None
                 | _ \<Rightarrow> None)
              else if 240 \<le> b \<and> b < 248 then
                (case cs of
                   c1 # c2 # c3 # r \<Rightarrow>
                     if is_cont c1 \<and> is_cont c2 \<and> is_cont c3
                     then Some ((((b - 240) * 64 + cont_bits c1) * 64 + cont_bits c2) * 64
                                + cont_bits c3, 4)
                     else None
                 | _ \<Rightarrow> None)
              else None))"

text \<open>
  \<open>str.isspace\<close> on a code point: the ASCII codes 9 to 13, 28 to 31 and 32, and U+0085,
  U+00A0, U+1680, U+2000 to U+200A, U+2028, U+2029, U+202F, U+205F, U+3000. The
  whitespace of C, which \<open>float\<close> skips at both ends after its own translation to ASCII,
  is 9 to 13 and 32.
\<close>

definition py_isspace :: "nat \<Rightarrow> bool" where
  "py_isspace n =
     ((9 \<le> n \<and> n \<le> 13) \<or> (28 \<le> n \<and> n \<le> 32) \<or> n = 133 \<or> n = 160 \<or> n = 5760
      \<or> (8192 \<le> n \<and> n \<le> 8202) \<or> n = 8232 \<or> n = 8233 \<or> n = 8239 \<or> n = 8287
      \<or> n = 12288)"

definition c_isspace :: "char \<Rightarrow> bool" where
  "c_isspace c = (let n = (of_char c :: nat) in (9 \<le> n \<and> n \<le> 13) \<or> n = 32)"

definition strip_with :: "(char \<Rightarrow> bool) \<Rightarrow> string \<Rightarrow> string" where
  "strip_with p s = rev (dropWhile p (rev (dropWhile p s)))"

text \<open>
  \<open>str.strip()\<close>: whitespace characters are removed from the front, then from the end.
  \<open>rstrip_rev\<close> works on the reversed bytes: the last character is the last lead byte
  with the continuation bytes after it.
\<close>

fun lstrip :: "string \<Rightarrow> string" where
  "lstrip [] = []"
| "lstrip (c # cs) =
     (case utf8_head (c # cs) of
        None \<Rightarrow> c # cs
      | Some (cp, n) \<Rightarrow> if py_isspace cp then lstrip (drop (n - 1) cs) else c # cs)"

fun rstrip_rev :: "string \<Rightarrow> string" where
  "rstrip_rev [] = []"
| "rstrip_rev (c # cs) =
     (let k = length (takeWhile is_cont (c # cs))
      in case utf8_head (rev (take (Suc k) (c # cs))) of
           None \<Rightarrow> c # cs
         | Some (cp, n) \<Rightarrow>
             if n = Suc k \<and> py_isspace cp then rstrip_rev (drop k cs) else c # cs)"

definition py_strip :: "string \<Rightarrow> string" where
  "py_strip s = rev (rstrip_rev (rev (lstrip s)))"

text \<open>
  \<open>s.replace(old, new)\<close>: the occurrences of \<open>old\<close> are replaced from left to right
  without overlap; an empty \<open>old\<close> matches before every character and at the end.
\<close>

fun replace_ne :: "string \<Rightarrow> string \<Rightarrow> string \<Rightarrow> string" where
  "replace_ne old new [] = []"
| "replace_ne old new (c # cs) =
     (if prefix old (c # cs) then new @ replace_ne old new (drop (length old - 1) cs)
      else c # replace_ne old new cs)"

definition py_replace :: "string \<Rightarrow> string \<Rightarrow> string \<Rightarrow> string" where
  "py_replace old new s =
     (if old = [] then new @ concat (map (\<lambda>c. c # new) s) else replace_ne old new s)"

text \<open>\<open>s.split(sep)\<close> for a one-character separator.\<close>

fun py_split :: "char \<Rightarrow> string \<Rightarrow> string list" where
  "py_split sep [] = [[]]"
| "py_split sep (c # cs) =
     (if c = sep then [] # py_split sep cs
      else (case py_split sep cs of [] \<Rightarrow> [[c]] | p # ps \<Rightarrow> (c # p) # ps))"

text \<open>
  \<open>len\<close> counts code points; in UTF-8 these are the bytes that are not continuation
  bytes (\<open>0x80\<close> to \<open>0xBF\<close>).
\<close>

definition py_len :: "string \<Rightarrow> nat" where
  "py_len s = length (filter (\<lambda>c. \<not> is_cont c) s)"

abbreviation euro :: string where
  "euro \<equiv> [CHR 0xE2, CHR 0x82, CHR 0xAC]"

abbreviation pound :: string where
  "pound \<equiv> [CHR 0xC2, CHR 0xA3]"

abbreviation nbsp :: string where
  "nbsp \<equiv> [CHR 0xC2, CHR 0xA0]"

subsection \<open>The built-in \<open>float\<close>\<close>

text \<open>
  A number becomes a double only if it is in range. A magnitude of
  \<open>2^1024 - 2^970\<close> or more, half a step above the largest double, is an overflow: the
  text of such a number parses to an infinity, and an int of that size raises
  \<open>OverflowError\<close>. A magnitude of \<open>2^-1075\<close> or less parses to zero.
\<close>

definition DBL_OVERFLOW :: rat where
  "DBL_OVERFLOW = 2 ^ 1024 - 2 ^ 970"

definition DBL_UNDERFLOW :: rat where
  "DBL_UNDERFLOW = 1 / 2 ^ 1075"

definition strtod_range :: "rat \<Rightarrow> pyfloat" where
  "strtod_range q =
     (if DBL_OVERFLOW \<le> \<bar>q\<bar> then (if q < 0 then NInf else PInf)
      else if \<bar>q\<bar> \<le> DBL_UNDERFLOW then Fin 0
      else Fin q)"

definition float_of_int :: "int \<Rightarrow> error + pyfloat" where
  "float_of_int n =
     (if DBL_OVERFLOW \<le> \<bar>of_int n\<bar> then Inl (OverflowError ''int too large to convert to float'')
      else Inr (Fin (of_int n)))"

text \<open>
  \<open>float(s)\<close> first translates the text to ASCII: a character below 127 stays, any other
  whitespace character becomes a blank, a decimal digit of any script becomes the ASCII
  digit of its value, and at any other character the text ends in \<open>?\<close>.
  \<open>decimal_zeros\<close> lists the code points of the digit zero of every script of Unicode
  14.0; the nine code points after each are its digits 1 to 9.
\<close>

definition decimal_zeros :: "nat list" where
  "decimal_zeros =
     [0x30, 0x660, 0x6F0, 0x7C0, 0x966, 0x9E6, 0xA66, 0xAE6, 0xB66, 0xBE6, 0xC66, 0xCE6,
      0xD66, 0xDE6, 0xE50, 0xED0, 0xF20, 0x1040, 0x1090, 0x17E0, 0x1810, 0x1946, 0x19D0,
      0x1A80, 0x1A90, 0x1B50, 0x1BB0, 0x1C40, 0x1C50, 0xA620, 0xA8D0, 0xA900, 0xA9D0,
      0xA9F0, 0xAA50, 0xABF0, 0xFF10, 0x104A0, 0x10D30, 0x11066, 0x110F0, 0x11136,
      0x111D0, 0x112F0, 0x11450, 0x114D0, 0x11650, 0x116C0, 0x11730, 0x118E0, 0x11950,
      0x11C50, 0x11D50, 0x11DA0, 0x16A60, 0x16AC0, 0x16B50, 0x1D7CE, 0x1D7D8, 0x1D7E2,
      0x1D7EC, 0x1D7F6, 0x1E140, 0x1E2F0, 0x1E950, 0x1FBF0]"

definition unicode_decimal :: "nat \<Rightarrow> nat option" where
  "unicode_decimal cp =
     (case find (\<lambda>z. z \<le> cp \<and> cp < z + 10) decimal_zeros of
        None \<Rightarrow> None
      | Some z \<Rightarrow> Some (cp - z))"

fun to_ascii :: "string \<Rightarrow> string" where
  "to_ascii [] = []"
| "to_ascii (c # cs) =
     (if (of_char c :: nat) < 127 then c # to_ascii cs
      else (case utf8_head (c # cs) of
              None \<Rightarrow> ''?''
            | Some (cp, n) \<Rightarrow>
                if py_isspace cp then CHR '' '' # to_ascii (drop (n - 1) cs)
                else (case unicode_decimal cp of
                        None \<Rightarrow> ''?''
                      | Some d \<Rightarrow> (''0123456789'' ! d) # to_ascii (drop (n - 1) cs))))"

text \<open>
  Then single underscores between digits are accepted and removed, whitespace is skipped
  at both ends, and the whole rest must be an optionally signed \<open>inf\<close>, \<open>infinity\<close> or
  \<open>nan\<close> (in any case), or a decimal number with an optional exponent; anything else
  raises \<open>ValueError\<close>.
\<close>

definition is_digit :: "char \<Rightarrow> bool" where
  "is_digit c = (48 \<le> (of_char c :: nat) \<and> (of_char c :: nat) \<le> 57)"

definition digits_val :: "string \<Rightarrow> nat" where
  "digits_val ds = foldl (\<lambda>a c. 10 * a + (of_char c - 48)) 0 ds"

fun underscores_ok :: "char \<Rightarrow> string \<Rightarrow> bool" where
  "underscores_ok prev [] = (prev \<noteq> CHR ''_'')"
| "underscores_ok prev (c # cs) =
     ((if c = CHR ''_'' then is_digit prev else prev = CHR ''_'' \<longrightarrow> is_digit c)
      \<and> underscores_ok c cs)"

definition ascii_lower :: "char \<Rightarrow> char" where
  "ascii_lower c =
     (case map_of (zip ''ABCDEFGHIJKLMNOPQRSTUVWXYZ'' ''abcdefghijklmnopqrstuvwxyz'') c of
        None \<Rightarrow> c
      | Some l \<Rightarrow> l)"

definition split_sign :: "string \<Rightarrow> bool \<times> string" where
  "split_sign s =
     (case s of
        [] \<Rightarrow> (False, [])
      | c # t \<Rightarrow> if c = CHR ''-'' then (True, t) else if c = CHR ''+'' then (False, t)
                 else (False, s))"

definition parse_exponent :: "string \<Rightarrow> (bool \<times> nat) option" where
  "parse_exponent s =
     (case s of
        [] \<Rightarrow> Some (False, 0)
      | c # t \<Rightarrow>
          if c = CHR ''e'' \<or> c = CHR ''E'' then
            (let (neg, ds) = split_sign t
             in if ds \<noteq> [] \<and> list_all is_digit ds then Some (neg, digits_val ds) else None)
          else None)"

definition parse_number :: "string \<Rightarrow> rat option" where
  "parse_number s =
     (let ip = takeWhile is_digit s;
          r1 = dropWhile is_digit s;
          (fp, r2) = (case r1 of
                        [] \<Rightarrow> ([], [])
                      | c # t \<Rightarrow> if c = CHR ''.''
                                 then (takeWhile is_digit t, dropWhile is_digit t)
                                 else ([], r1))
      in if ip = [] \<and> fp = [] then None
         else (case parse_exponent r2 of
                 None \<Rightarrow> None
               | Some (neg, e) \<Rightarrow>
                   (let m = of_nat (digits_val (ip @ fp)) / 10 ^ length fp
                    in Some (if neg then m / 10 ^ e else m * 10 ^ e))))"

definition py_float :: "string \<Rightarrow> error + pyfloat" where
  "py_float s =
     (let a = to_ascii s
      in if \<not> underscores_ok CHR 0x00 a
         then Inl (ValueError ''could not convert string to float'')
         else
           (let t = strip_with c_isspace (filter (\<lambda>c. c \<noteq> CHR ''_'') a);
                (neg, r) = split_sign t;
                w = map ascii_lower r
            in if w = ''inf'' \<or> w = ''infinity'' then Inr (if neg then NInf else PInf)
               else if w = ''nan'' then Inr NaN
               else (case parse_number r of
                       None \<Rightarrow> Inl (ValueError ''could not convert string to float'')
                     | Some q \<Rightarrow> Inr (strtod_range (if neg then - q else q)))))"

section \<open>The cleaning functions of \<open>data_processor.py\<close>\<close>

text \<open>
  The argument of a cleaning function is any Python scalar: an int (a bool counts as the
  int 1 or 0), a float, or a \<open>str\<close>. Inside the loader \<open>Series.apply\<close> hands over the cells
  of the frame; its numbers are 64-bit ints and doubles, whose conversion by \<open>float\<close>
  succeeds and keeps the number, so \<open>box\<close> passes them as floats.
\<close>

datatype pyvalue = PyInt int | PyFloat pyfloat | PyStr string

fun box :: "cell \<Rightarrow> pyvalue" where
  "box (Num x) = PyFloat x"
| "box (Str s) = PyStr s"

text \<open>\<open>pd.isna(value)\<close> and \<open>value == 0\<close> on a scalar.\<close>

fun isna_scalar :: "pyvalue \<Rightarrow> bool" where
  "isna_scalar (PyFloat NaN) = True"
| "isna_scalar _ = False"

definition eq_zero :: "pyvalue \<Rightarrow> bool" where
  "eq_zero v = (v = PyInt 0 \<or> v = PyFloat (Fin 0))"

text \<open>\<open>float(value)\<close>: an int is converted, a float is returned as it is, a string is parsed.\<close>

fun float_of_value :: "pyvalue \<Rightarrow> error + pyfloat" where
  "float_of_value (PyInt n) = float_of_int n"
| "float_of_value (PyFloat x) = Inr x"
| "float_of_value (PyStr s) = py_float s"

text \<open>
  \<open>try: ... except (ValueError, AttributeError): return np.nan\<close>: the two named
  exceptions become NaN, any other one leaves the function. The conversion of a number,
  \<open>return float(value)\<close>, stands before the \<open>try\<close>.
\<close>

fun except_value_attribute :: "error + pyfloat \<Rightarrow> error + pyfloat" where
  "except_value_attribute (Inl (ValueError m)) = Inr NaN"
| "except_value_attribute (Inl (AttributeError m)) = Inr NaN"
| "except_value_attribute r = r"

definition convert_european_decimal :: "pyvalue \<Rightarrow> error + pyfloat" where
  "convert_european_decimal v =
     (if isna_scalar v \<or> v = PyStr [] \<or> eq_zero v then Inr NaN
      else (case v of
              PyInt n \<Rightarrow> float_of_int n
            | PyFloat x \<Rightarrow> Inr x
            | PyStr s \<Rightarrow>
                except_value_attribute
                  (let cleaned = py_replace '','' ''.'' (py_strip s)
                   in py_float cleaned)))"

definition clean_price :: "pyvalue \<Rightarrow> error + pyfloat" where
  "clean_price v =
     (if isna_scalar v \<or> v = PyStr [] then Inr NaN
      else (case v of
              PyInt n \<Rightarrow> float_of_int n
            | PyFloat x \<Rightarrow> Inr x
            | PyStr s \<Rightarrow>
                except_value_attribute
                  (let cleaned = py_strip s;
                       cleaned = py_replace pound [] (py_replace euro [] (py_replace ''$'' [] cleaned));
                       cleaned = py_replace '' '' [] cleaned
                   in if CHR '','' \<in> set cleaned \<and> CHR ''.'' \<notin> set cleaned then
                        (case py_split CHR '','' cleaned of
                           [] \<Rightarrow> Inl (IndexError ''list index out of range'')
                         | p # ps \<Rightarrow>
                             if py_len (last (p # ps)) = 2
                             then py_float (py_replace '','' ''.'' cleaned)
                             else py_float (py_replace '','' [] cleaned))
                      else py_float cleaned)))"

text \<open>
  \<open>int(x)\<close> on a float truncates towards zero; it raises \<open>ValueError\<close> on NaN and
  \<open>OverflowError\<close> on an infinity.
\<close>

definition py_int :: "pyfloat \<Rightarrow> error + pyfloat" where
  "py_int x =
     (case x of
        NaN \<Rightarrow> Inl (ValueError ''cannot convert float NaN to integer'')
      | Fin q \<Rightarrow> Inr (Fin (of_int (if q < 0 then \<lceil>q\<rceil> else \<lfloor>q\<rfloor>)))
      | _ \<Rightarrow> Inl (OverflowError ''cannot convert float infinity to integer''))"

fun except_value_type :: "error + pyfloat \<Rightarrow> error + pyfloat" where
  "except_value_type (Inl (ValueError m)) = Inr NaN"
| "except_value_type (Inl (TypeError m)) = Inr NaN"
| "except_value_type r = r"

definition clean_host_since :: "pyvalue \<Rightarrow> error + pyfloat" where
  "clean_host_since v =
     (if isna_scalar v \<or> v = PyStr [] then Inr NaN
      else except_value_type
             (case float_of_value v of Inl e \<Rightarrow> Inl e | Inr x \<Rightarrow> py_int x))"

section \<open>The fixed lookup tables\<close>

definition ROOM_TYPE_MAP :: "rat \<rightharpoonup> string" where
  "ROOM_TYPE_MAP =
     map_of [(1, ''Private Room''), (2, ''Entire Home/Apt''), (3, ''Shared Room''),
             (4, ''Hotel Room'')]"

text \<open>City coordinates as (lat, lon).\<close>

definition CITY_COORDINATES :: "string \<rightharpoonup> rat \<times> rat" where
  "CITY_COORDINATES =
     map_of [(''Toronto'', (43.6532, - 79.3832)),
             (''NewYork'', (40.7128, - 74.0060)),
             (''Amsterdam'', (52.3676, 4.9041)),
             (''Berlin'', (52.5200, 13.4050)),
             (''Dublin'', (53.3498, - 6.2603)),
             (''Hongkong'', (22.3193, 114.1694)),
             (''Munich'', (48.1351, 11.5820)),
             (''Singapore'', (1.3521, 103.8198)),
             (''Sydney'', (- 33.8688, 151.2093)),
             (''Tokyo'', (35.6762, 139.6503))]"

definition CORRECT_CITY_AREA :: "string \<rightharpoonup> string" where
  "CORRECT_CITY_AREA =
     map_of [(''Toronto'', ''North America''),
             (''NewYork'', ''North America''),
             (''Amsterdam'', ''Europe''),
             (''Berlin'', ''Europe''),
             (''Dublin'', ''Europe''),
             (''Munich'', ''Europe''),
             (''Hongkong'', ''Asia''),
             (''Singapore'', ''Asia''),
             (''Sydney'', ''Oceania''),
             (''Tokyo'', ''Asia'')]"

section \<open>Rows of the data frame\<close>

text \<open>
  A row as \<open>pd.read_csv\<close> delivers it, with the columns the loader reads; the fields
  are the column names after \<open>df.columns.str.strip()\<close>, an underscore standing for a
  blank. \<open>city\<close> and \<open>area\<close> are text columns: a string, or \<open>None\<close> for NaN.
  \<open>sales\<close> enters the product of step 7 and is a numeric column. Every other column
  may hold numbers or text.
\<close>

record raw_listing =
  raw_id :: cell
  raw_host_id :: cell
  raw_city :: "string option"
  raw_area :: "string option"
  raw_room_type :: cell
  raw_price :: cell
  raw_bathrooms :: cell
  raw_consumer :: cell
  raw_host_response_rate :: cell
  raw_host_acceptance_rate :: cell
  raw_sales :: pyfloat
  raw_host_since :: cell
  raw_host_Certification :: cell
  raw_guest_favourite :: cell
  raw_accommodates :: cell
  raw_bedrooms :: cell
  raw_beds :: cell
  raw_total_reviewers_number :: cell

text \<open>
  A row of the cleaned frame: the columns of the file (the count columns numeric after
  \<open>pd.to_numeric\<close>; \<open>id_col\<close> is the column \<open>id\<close> and \<open>guest_favourite_col\<close> the
  column \<open>guest favourite\<close> of the file) and the derived columns.
\<close>

record listing =
  id_col :: cell
  host_id :: cell
  city :: "string option"
  area :: "string option"
  room_type :: cell
  price :: cell
  bathrooms :: cell
  consumer :: cell
  host_response_rate :: cell
  host_acceptance_rate :: cell
  sales :: pyfloat
  host_since :: cell
  host_Certification :: cell
  guest_favourite_col :: cell
  accommodates :: pyfloat
  bedrooms :: pyfloat
  beds :: pyfloat
  total_reviewers_number :: pyfloat
  price_clean :: pyfloat
  bathrooms_clean :: pyfloat
  consumer_clean :: pyfloat
  host_response_rate_clean :: pyfloat
  host_acceptance_rate_clean :: pyfloat
  room_type_decoded :: string
  revenue_estimate :: pyfloat
  host_since_clean :: pyfloat
  city_lat :: pyfloat
  city_lon :: pyfloat
  host_certified :: bool
  guest_favourite :: bool

section \<open>Column operations of pandas\<close>

definition err_bind :: "error + 'a \<Rightarrow> ('a \<Rightarrow> error + 'b) \<Rightarrow> error + 'b" where
  "err_bind m f = (case m of Inl e \<Rightarrow> Inl e | Inr x \<Rightarrow> f x)"

text \<open>Applying a function that may raise to every row: the first exception wins.\<close>

fun err_map :: "('a \<Rightarrow> error + 'b) \<Rightarrow> 'a list \<Rightarrow> error + 'b list" where
  "err_map f [] = Inr []"
| "err_map f (x # xs) =
     err_bind (f x) (\<lambda>y. err_bind (err_map f xs) (\<lambda>ys. Inr (y # ys)))"

text \<open>\<open>Series.map(ROOM_TYPE_MAP)\<close>: the label of a key of the table, NaN otherwise.\<close>

definition map_room_type :: "cell \<Rightarrow> string option" where
  "map_room_type c = (case c of Num (Fin q) \<Rightarrow> ROOM_TYPE_MAP q | _ \<Rightarrow> None)"

definition fillna_str :: "string option \<Rightarrow> string \<Rightarrow> string" where
  "fillna_str x d = (case x of None \<Rightarrow> d | Some s \<Rightarrow> s)"

definition fillna :: "pyfloat \<Rightarrow> pyfloat \<Rightarrow> pyfloat" where
  "fillna x d = (if x = NaN then d else x)"

text \<open>\<open>Series.map(CORRECT_CITY_AREA).fillna(df['area'])\<close>, on one row.\<close>

definition map_city_area :: "string option \<Rightarrow> string option" where
  "map_city_area c = (case c of None \<Rightarrow> None | Some k \<Rightarrow> CORRECT_CITY_AREA k)"

definition fillna_series :: "string option \<Rightarrow> string option \<Rightarrow> string option" where
  "fillna_series x other = (case x of None \<Rightarrow> other | Some s \<Rightarrow> Some s)"

text \<open>\<open>CITY_COORDINATES.get(x, {}).get('lat', np.nan)\<close> and the same for \<open>'lon'\<close>.\<close>

definition coord_lat :: "string option \<Rightarrow> pyfloat" where
  "coord_lat c =
     (case c of None \<Rightarrow> NaN
      | Some k \<Rightarrow> (case CITY_COORDINATES k of None \<Rightarrow> NaN | Some (lat, lon) \<Rightarrow> Fin lat))"

definition coord_lon :: "string option \<Rightarrow> pyfloat" where
  "coord_lon c =
     (case c of None \<Rightarrow> NaN
      | Some k \<Rightarrow> (case CITY_COORDINATES k of None \<Rightarrow> NaN | Some (lat, lon) \<Rightarrow> Fin lon))"

text \<open>\<open>.fillna(0).astype(bool)\<close>: NaN and zero are false, an empty string is false.\<close>

definition fillna0_astype_bool :: "cell \<Rightarrow> bool" where
  "fillna0_astype_bool c =
     (case c of Num NaN \<Rightarrow> False | Num x \<Rightarrow> x \<noteq> Fin 0 | Str s \<Rightarrow> s \<noteq> [])"

text \<open>
  \<open>pd.to_numeric(..., errors='coerce')\<close>: a number stays, a string becomes the number
  pandas reads in it or NaN. How pandas reads a string is the parameter \<open>tn\<close>.
\<close>

definition to_numeric :: "(string \<Rightarrow> pyfloat) \<Rightarrow> cell \<Rightarrow> pyfloat" where
  "to_numeric tn c = (case c of Num x \<Rightarrow> x | Str s \<Rightarrow> tn s)"

text \<open>Aggregations skip NaN; of no values the sum is 0 and the others are NaN.\<close>

definition notnan :: "pyfloat list \<Rightarrow> pyfloat list" where
  "notnan xs = filter (\<lambda>x. x \<noteq> NaN) xs"

definition fsum :: "pyfloat list \<Rightarrow> pyfloat" where
  "fsum xs = foldl fadd (Fin 0) (notnan xs)"

definition fmean :: "pyfloat list \<Rightarrow> pyfloat" where
  "fmean xs =
     (let ys = notnan xs
      in if ys = [] then NaN else fdiv (foldl fadd (Fin 0) ys) (Fin (of_nat (length ys))))"

definition fmin :: "pyfloat list \<Rightarrow> pyfloat" where
  "fmin xs =
     (case notnan xs of [] \<Rightarrow> NaN
      | y # ys \<Rightarrow> foldl (\<lambda>m x. if flt x m then x else m) y ys)"

definition fmax :: "pyfloat list \<Rightarrow> pyfloat" where
  "fmax xs =
     (case notnan xs of [] \<Rightarrow> NaN
      | y # ys \<Rightarrow> foldl (\<lambda>m x. if flt m x then x else m) y ys)"

text \<open>\<open>Series.unique()\<close>: the distinct values in order of first appearance, NaN included.\<close>

fun py_unique :: "'a list \<Rightarrow> 'a list" where
  "py_unique [] = []"
| "py_unique (x # xs) = x # py_unique (filter (\<lambda>y. y \<noteq> x) xs)"

text \<open>\<open>Series.nunique()\<close> counts the distinct values other than NaN.\<close>

definition nunique_text :: "string option list \<Rightarrow> nat" where
  "nunique_text xs = length (py_unique (filter (\<lambda>x. x \<noteq> None) xs))"

definition nunique_cell :: "cell list \<Rightarrow> nat" where
  "nunique_cell xs = length (py_unique (filter (\<lambda>x. \<not> isna x) xs))"

text \<open>
  \<open>sorted\<close> on the values of a text column: strings are ordered by code point, which is
  the order of their UTF-8 bytes; comparing the float NaN with a string raises
  \<open>TypeError\<close>; NaN values alone stay as they are.
\<close>

definition py_sorted :: "string option list \<Rightarrow> error + string option list" where
  "py_sorted xs =
     (let strs = List.map_filter (\<lambda>x. x) xs
      in if length strs = length xs then Inr (map Some (sort strs))
         else if strs = [] then Inr xs
         else Inl (TypeError ''< not supported between instances of float and str''))"

section \<open>\<open>load_and_clean_data\<close>\<close>

record stats =
  stats_total_listings :: nat
  stats_original_count :: nat
  stats_cities :: nat
  stats_areas :: nat
  stats_unique_cities :: "string option list"
  stats_unique_areas :: "string option list"
  stats_unique_room_types :: "string list"
  stats_avg_price :: pyfloat
  stats_avg_rating :: pyfloat
  stats_total_hosts :: nat
  stats_date_range :: "pyfloat \<times> pyfloat"
  stats_price_range :: "pyfloat \<times> pyfloat"
  stats_rating_range :: "pyfloat \<times> pyfloat"

text \<open>
  Steps 1 to 13 of the loader on one row, up to and including \<open>pd.to_numeric\<close>. The
  exceptions come in the order of the steps: the five \<open>apply\<close> calls of steps 1 to 5,
  then \<open>clean_host_since\<close> of step 8.
\<close>

definition derive_fields :: "(string \<Rightarrow> pyfloat) \<Rightarrow> raw_listing \<Rightarrow> error + listing" where
  "derive_fields tn r =
     err_bind (clean_price (box (raw_price r))) (\<lambda>pc.
     err_bind (convert_european_decimal (box (raw_bathrooms r))) (\<lambda>bc.
     err_bind (convert_european_decimal (box (raw_consumer r))) (\<lambda>cc.
     err_bind (convert_european_decimal (box (raw_host_response_rate r))) (\<lambda>rr.
     err_bind (convert_european_decimal (box (raw_host_acceptance_rate r))) (\<lambda>ar.
     err_bind (clean_host_since (box (raw_host_since r))) (\<lambda>hs.
     Inr \<lparr> id_col = raw_id r,
           host_id = raw_host_id r,
           city = raw_city r,
           area = fillna_series (map_city_area (raw_city r)) (raw_area r),
           room_type = raw_room_type r,
           price = raw_price r,
           bathrooms = raw_bathrooms r,
           consumer = raw_consumer r,
           host_response_rate = raw_host_response_rate r,
           host_acceptance_rate = raw_host_acceptance_rate r,
           sales = to_numeric tn (Num (raw_sales r)),
           host_since = raw_host_since r,
           host_Certification = raw_host_Certification r,
           guest_favourite_col = raw_guest_favourite r,
           accommodates = to_numeric tn (raw_accommodates r),
           bedrooms = to_numeric tn (raw_bedrooms r),
           beds = to_numeric tn (raw_beds r),
           total_reviewers_number = to_numeric tn (raw_total_reviewers_number r),
           price_clean = pc,
           bathrooms_clean = bc,
           consumer_clean = cc,
           host_response_rate_clean = rr,
           host_acceptance_rate_clean = ar,
           room_type_decoded = fillna_str (map_room_type (raw_room_type r)) ''Unknown'',
           revenue_estimate = fmul pc (raw_sales r),
           host_since_clean = hs,
           city_lat = coord_lat (raw_city r),
           city_lon = coord_lon (raw_city r),
           host_certified = fillna0_astype_bool (raw_host_Certification r),
           guest_favourite = fillna0_astype_bool (raw_guest_favourite r) \<rparr>))))))"

text \<open>The last step before the statistics: the three \<open>fillna\<close> calls.\<close>

definition fill_missing :: "listing \<Rightarrow> listing" where
  "fill_missing l =
     l\<lparr> bedrooms := fillna (bedrooms l) (Fin 0),
        bathrooms_clean := fillna (bathrooms_clean l) (Fin 1),
        beds := fillna (beds l) (Fin 1) \<rparr>"

definition calculate_statistics :: "nat \<Rightarrow> listing list \<Rightarrow> error + stats" where
  "calculate_statistics original_count df =
     err_bind (py_sorted (py_unique (map city df))) (\<lambda>unique_cities.
     err_bind (py_sorted (py_unique (map area df))) (\<lambda>unique_areas.
     Inr \<lparr> stats_total_listings = length df,
           stats_original_count = original_count,
           stats_cities = nunique_text (map city df),
           stats_areas = nunique_text (map area df),
           stats_unique_cities = unique_cities,
           stats_unique_areas = unique_areas,
           stats_unique_room_types = sort (py_unique (map room_type_decoded df)),
           stats_avg_price = fmean (map price_clean df),
           stats_avg_rating = fmean (map consumer_clean df),
           stats_total_hosts = nunique_cell (map host_id df),
           stats_date_range = (fmin (map host_since_clean df), fmax (map host_since_clean df)),
           stats_price_range = (fmin (map price_clean df), fmax (map price_clean df)),
           stats_rating_range = (fmin (map consumer_clean df), fmax (map consumer_clean df)) \<rparr>))"

text \<open>
  The loader. Reading the file is \<open>pd.read_csv\<close>, the parameter \<open>read_csv\<close>: it gives the
  rows of the file or raises.
\<close>

definition load_and_clean_data ::
  "(string \<Rightarrow> error + raw_listing list) \<Rightarrow> (string \<Rightarrow> pyfloat) \<Rightarrow> string
     \<Rightarrow> error + listing list \<times> stats" where
  "load_and_clean_data read_csv tn filepath =
     err_bind (read_csv filepath) (\<lambda>raw.
     let original_count = length raw in
     err_bind (err_map (derive_fields tn) raw) (\<lambda>derived.
     let df = map fill_missing derived in
     err_bind (calculate_statistics original_count df) (\<lambda>stats.
     Inr (df, stats))))"

section \<open>\<open>filter_data\<close>\<close>

text \<open>
  The function works on \<open>filtered\<close>, a copy of its argument, and rebinds that local name
  at every supplied predicate; \<open>df\<close> itself is never assigned. The two names are the state
  of the run.
\<close>

record filter_state =
  st_df :: "listing list"
  st_filtered :: "listing list"

text \<open>\<open>filtered = filtered[mask]\<close>: the rows whose mask \<open>keep\<close> is true, in their order.\<close>

definition select_rows :: "(listing \<Rightarrow> bool) \<Rightarrow> filter_state \<Rightarrow> filter_state" where
  "select_rows keep st = st\<lparr> st_filtered := filter keep (st_filtered st) \<rparr>"

text \<open>\<open>if xs and len(xs) > 0\<close> on an optional list.\<close>

definition supplied_list :: "'a list option \<Rightarrow> bool" where
  "supplied_list xs = (case xs of None \<Rightarrow> False | Some l \<Rightarrow> l \<noteq> [] \<and> length l > 0)"

definition isin :: "'a \<Rightarrow> 'a list option \<Rightarrow> bool" where
  "isin x xs = (case xs of None \<Rightarrow> False | Some l \<Rightarrow> x \<in> set l)"

definition filter_data_run ::
  "listing list \<Rightarrow> string option list option \<Rightarrow> string option list option
     \<Rightarrow> string list option \<Rightarrow> (pyfloat \<times> pyfloat) option \<Rightarrow> int \<Rightarrow> pyfloat
     \<Rightarrow> bool \<Rightarrow> bool \<Rightarrow> filter_state" where
  "filter_data_run df cities areas room_types price_range min_reviews min_rating
       guest_favourites_only certified_hosts_only =
     (let st = \<lparr> st_df = df, st_filtered = df \<rparr>;
          st = (if supplied_list cities
                then select_rows (\<lambda>r. isin (city r) cities) st else st);
          st = (if supplied_list areas
                then select_rows (\<lambda>r. isin (area r) areas) st else st);
          st = (if supplied_list room_types
                then select_rows (\<lambda>r. isin (room_type_decoded r) room_types) st else st);
          st = (case price_range of
                  None \<Rightarrow> st
                | Some (lo, hi) \<Rightarrow>
                    select_rows (\<lambda>r. fge (price_clean r) lo \<and> fle (price_clean r) hi) st);
          st = (if min_reviews > 0
                then select_rows
                       (\<lambda>r. fge (total_reviewers_number r) (Fin (of_int min_reviews))) st
                else st);
          st = (if fgt min_rating (Fin 0)
                then select_rows (\<lambda>r. fge (consumer_clean r) min_rating) st else st);
          st = (if guest_favourites_only
                then select_rows (\<lambda>r. guest_favourite r = True) st else st);
          st = (if certified_hosts_only
                then select_rows (\<lambda>r. host_certified r = True) st else st)
      in st)"

definition filter_data ::
  "listing list \<Rightarrow> string option list option \<Rightarrow> string option list option
     \<Rightarrow> string list option \<Rightarrow> (pyfloat \<times> pyfloat) option \<Rightarrow> int \<Rightarrow> pyfloat
     \<Rightarrow> bool \<Rightarrow> bool \<Rightarrow> listing list" where
  "filter_data df cities areas room_types price_range min_reviews min_rating
       guest_favourites_only certified_hosts_only =
     st_filtered (filter_data_run df cities areas room_types price_range min_reviews
                    min_rating guest_favourites_only certified_hosts_only)"

section \<open>The dashboard metrics\<close>

text \<open>
  \<open>df.groupby('city')\<close>: one group for every city other than NaN, the groups in the
  sorted order of their keys, each with its rows in their order.
\<close>

definition groupby_city :: "listing list \<Rightarrow> (string \<times> listing list) list" where
  "groupby_city df =
     map (\<lambda>k. (k, filter (\<lambda>r. city r = Some k) df))
         (sort (py_unique (List.map_filter city df)))"

text \<open>
  \<open>idxmax\<close> gives the label of the first maximum among the values that are not NaN. It
  raises \<open>ValueError\<close> on an empty series and gives NaN when every value is NaN (pandas
  before version 3).
\<close>

definition idxmax :: "('k \<times> pyfloat) list \<Rightarrow> error + 'k option" where
  "idxmax kvs =
     (if kvs = [] then Inl (ValueError ''attempt to get argmax of an empty sequence'')
      else (case filter (\<lambda>kv. snd kv \<noteq> NaN) kvs of
              [] \<Rightarrow> Inr None
            | kv # rest \<Rightarrow>
                Inr (Some (fst (foldl (\<lambda>best x. if flt (snd best) (snd x) then x else best)
                                      kv rest)))))"

text \<open>The function that \<open>calculate_guest_metrics\<close> applies to the rows of one city.\<close>

definition best_value :: "listing list \<Rightarrow> pyfloat" where
  "best_value x =
     (if fgt (fmean (map price_clean x)) (Fin 0)
      then fdiv (fmean (map consumer_clean x)) (fmean (map price_clean x))
      else Fin 0)"

record guest_metrics =
  guest_total_properties :: nat
  guest_avg_price :: pyfloat
  guest_avg_rating :: pyfloat
  guest_pct_favourites :: pyfloat
  guest_most_popular_city :: "string option"
  guest_best_value_city :: "string option"

definition pct_true :: "bool list \<Rightarrow> pyfloat" where
  "pct_true bs = fmul (fdiv (Fin (of_nat (length (filter (\<lambda>b. b) bs)))) (Fin (of_nat (length bs))))
                      (Fin 100)"

definition calculate_guest_metrics :: "listing list \<Rightarrow> error + guest_metrics" where
  "calculate_guest_metrics df =
     err_bind (if length df > 0
               then idxmax (map (\<lambda>(k, x). (k, Fin (of_nat (length x)))) (groupby_city df))
               else Inr (Some ''N/A'')) (\<lambda>most_popular_city.
     err_bind (if length df > 0
               then idxmax (map (\<lambda>(k, x). (k, best_value x)) (groupby_city df))
               else Inr (Some ''N/A'')) (\<lambda>best_value_city.
     Inr \<lparr> guest_total_properties = length df,
           guest_avg_price = (if length df > 0 then fmean (map price_clean df) else Fin 0),
           guest_avg_rating = (if length df > 0 then fmean (map consumer_clean df) else Fin 0),
           guest_pct_favourites =
             (if length df > 0 then pct_true (map guest_favourite df) else Fin 0),
           guest_most_popular_city = most_popular_city,
           guest_best_value_city = best_value_city \<rparr>))"

record host_metrics =
  host_total_revenue :: pyfloat
  host_avg_occupancy :: pyfloat
  host_total_hosts :: nat
  host_avg_listings_per_host :: pyfloat
  host_pct_certified :: pyfloat
  host_best_city :: "string option"

text \<open>
  \<open>df.groupby('host_id').size().mean()\<close>: the rows that have a host, divided by the
  number of hosts; NaN when no row has one.
\<close>

definition avg_listings_per_host :: "listing list \<Rightarrow> pyfloat" where
  "avg_listings_per_host df =
     (let hosts = filter (\<lambda>h. \<not> isna h) (map host_id df)
      in fmean (map (\<lambda>h. Fin (of_nat (length (filter (\<lambda>x. x = h) hosts)))) (py_unique hosts)))"

definition calculate_host_metrics :: "listing list \<Rightarrow> error + host_metrics" where
  "calculate_host_metrics df =
     err_bind (if length df > 0
               then idxmax (map (\<lambda>(k, x). (k, fsum (map revenue_estimate x))) (groupby_city df))
               else Inr (Some ''N/A'')) (\<lambda>best_city.
     Inr \<lparr> host_total_revenue = (if length df > 0 then fsum (map revenue_estimate df) else Fin 0),
           host_avg_occupancy =
             (if length df > 0
              then fmul (fdiv (fmean (map sales df)) (Fin 365)) (Fin 100) else Fin 0),
           host_total_hosts = (if length df > 0 then nunique_cell (map host_id df) else 0),
           host_avg_listings_per_host =
             (if length df > 0 then avg_listings_per_host df else Fin 0),
           host_pct_certified =
             (if length df > 0 then pct_true (map host_certified df) else Fin 0),
           host_best_city = best_city \<rparr>)"

section \<open>\<open>load_data\<close> and its caller in \<open>dashboard.py\<close>\<close>

fun str_of_error :: "error \<Rightarrow> string" where
  "str_of_error (FileNotFoundError m) = m"
| "str_of_error (PermissionError m) = m"
| "str_of_error (EmptyDataError m) = m"
| "str_of_error (ParserError m) = m"
| "str_of_error (UnicodeDecodeError m) = m"
| "str_of_error (ValueError m) = m"
| "str_of_error (AttributeError m) = m"
| "str_of_error (TypeError m) = m"
| "str_of_error (OverflowError m) = m"
| "str_of_error (IndexError m) = m"

fun is_FileNotFoundError :: "error \<Rightarrow> bool" where
  "is_FileNotFoundError (FileNotFoundError m) = True"
| "is_FileNotFoundError _ = False"

text \<open>The result of \<open>load_data\<close> is the triple \<open>(df, stats, error)\<close>, \<open>None\<close> as in Python.\<close>

definition load_data ::
  "(string \<Rightarrow> error + raw_listing list) \<Rightarrow> (string \<Rightarrow> pyfloat)
     \<Rightarrow> listing list option \<times> stats option \<times> string option" where
  "load_data read_csv tn =
     (case load_and_clean_data read_csv tn ''/app/data/Airbnb_site_hotel_new.csv'' of
        Inr (df, stats) \<Rightarrow> (Some df, Some stats, None)
      | Inl e \<Rightarrow>
          if is_FileNotFoundError e then
            (case load_and_clean_data read_csv tn ''data/Airbnb_site_hotel_new.csv'' of
               Inr (df, stats) \<Rightarrow> (Some df, Some stats, None)
             | Inl e' \<Rightarrow> (None, None, Some (str_of_error e')))
          else (None, None, Some (str_of_error e)))"

text \<open>
  What \<open>main\<close> does with that triple before it builds the page: it shows the error and
  returns, or shows that there is no data and returns, or goes on with the frame.
\<close>

datatype page =
    ErrorLoadingData string
  | NoDataAvailable
  | Dashboard "listing list" "stats option"

definition truthy_str :: "string option \<Rightarrow> bool" where
  "truthy_str e = (case e of None \<Rightarrow> False | Some m \<Rightarrow> m \<noteq> [])"

definition main_load ::
  "listing list option \<times> stats option \<times> string option \<Rightarrow> page" where
  "main_load t =
     (case t of (df, data_stats, error) \<Rightarrow>
        if truthy_str error then ErrorLoadingData (the error)
        else (case df of
                None \<Rightarrow> NoDataAvailable
              | Some d \<Rightarrow> if length d = 0 then NoDataAvailable else Dashboard d data_stats))"

section \<open>The parsing rules as the specification words them\<close>

text \<open>A text that does not parse as a float gives the missing sentinel.\<close>

definition float_or_missing :: "string \<Rightarrow> pyfloat" where
  "float_or_missing s = (case py_float s of Inl e \<Rightarrow> NaN | Inr y \<Rightarrow> y)"

text \<open>The characters after the last comma of a text (the whole text if it has none).\<close>

definition after_last_comma :: "string \<Rightarrow> string" where
  "after_last_comma s = rev (takeWhile (\<lambda>c. c \<noteq> CHR '','') (rev s))"

text \<open>Whitespace at the ends, the currency symbols and the inner spaces removed.\<close>

definition strip_price_symbols :: "string \<Rightarrow> string" where
  "strip_price_symbols s =
     py_replace '' '' []
       (py_replace pound [] (py_replace euro [] (py_replace ''$'' [] (py_strip s))))"

text \<open>
  The separator rule with the test the code makes: the comma is a decimal point when
  exactly two characters follow the last comma.
\<close>

definition price_text :: "string \<Rightarrow> string" where
  "price_text c =
     (if CHR '','' \<in> set c \<and> CHR ''.'' \<notin> set c
      then (if py_len (after_last_comma c) = 2 then py_replace '','' ''.'' c
            else py_replace '','' [] c)
      else c)"

text \<open>
  The separator rule in the words of the specification: the comma is a decimal point when
  exactly two digits follow the last comma, and a thousands separator otherwise.
\<close>

definition claimed_price_text :: "string \<Rightarrow> string" where
  "claimed_price_text c =
     (if CHR '','' \<in> set c \<and> CHR ''.'' \<notin> set c
      then (if py_len (after_last_comma c) = 2 \<and> list_all is_digit (after_last_comma c)
            then py_replace '','' ''.'' c
            else py_replace '','' [] c)
      else c)"

definition claimed_clean_price :: "pyvalue \<Rightarrow> pyfloat" where
  "claimed_clean_price v =
     (case v of
        PyInt n \<Rightarrow> Fin (of_int n)
      | PyFloat x \<Rightarrow> x
      | PyStr s \<Rightarrow> if s = [] then NaN
                   else float_or_missing (claimed_price_text (strip_price_symbols s)))"

section \<open>Example data\<close>

text \<open>
  The three rows of the scenario of the specification: Tokyo filed under Europe with the
  price \<open>"1,250"\<close> and the rating \<open>"6,5"\<close>, an unknown city in Oceania with the price
  \<open>"$80"\<close>, and Sydney filed under Europe. The columns the scenario leaves open are
  filled in here.
\<close>

definition scenario_row1 :: raw_listing where
  "scenario_row1 =
     \<lparr> raw_id = Num (Fin 1), raw_host_id = Num (Fin 10),
       raw_city = Some ''Tokyo'', raw_area = Some ''Europe'',
       raw_room_type = Num (Fin 1), raw_price = Str ''1,250'',
       raw_bathrooms = Str ''1,5'', raw_consumer = Str ''6,5'',
       raw_host_response_rate = Str ''0,9'', raw_host_acceptance_rate = Num (Fin 1),
       raw_sales = Fin 100, raw_host_since = Str ''1200.0'',
       raw_host_Certification = Num (Fin 1), raw_guest_favourite = Num NaN,
       raw_accommodates = Num (Fin 2), raw_bedrooms = Num (Fin 1),
       raw_beds = Num NaN, raw_total_reviewers_number = Num (Fin 10) \<rparr>"

definition scenario_row2 :: raw_listing where
  "scenario_row2 =
     \<lparr> raw_id = Num (Fin 2), raw_host_id = Num (Fin 10),
       raw_city = Some ''Unknown City'', raw_area = Some ''Oceania'',
       raw_room_type = Num (Fin 2), raw_price = Str ''$80'',
       raw_bathrooms = Num NaN, raw_consumer = Num NaN,
       raw_host_response_rate = Num NaN, raw_host_acceptance_rate = Num (Fin 0),
       raw_sales = Fin 200, raw_host_since = Num (Fin 800),
       raw_host_Certification = Num NaN, raw_guest_favourite = Num (Fin 1),
       raw_accommodates = Num (Fin 4), raw_bedrooms = Num NaN,
       raw_beds = Num (Fin 2), raw_total_reviewers_number = Num (Fin 0) \<rparr>"

definition scenario_row3 :: raw_listing where
  "scenario_row3 =
     \<lparr> raw_id = Num (Fin 3), raw_host_id = Num (Fin 11),
       raw_city = Some ''Sydney'', raw_area = Some ''Europe'',
       raw_room_type = Num (Fin 7), raw_price = Num (Fin 60),
       raw_bathrooms = Num (Fin 2), raw_consumer = Str ''4,8'',
       raw_host_response_rate = Str ''n/a'', raw_host_acceptance_rate = Str ''0,75'',
       raw_sales = NaN, raw_host_since = Num NaN,
       raw_host_Certification = Num (Fin 0), raw_guest_favourite = Num (Fin 1),
       raw_accommodates = Str ''two'', raw_bedrooms = Num (Fin 2),
       raw_beds = Num (Fin 1), raw_total_reviewers_number = Num NaN \<rparr>"

definition scenario_raw :: "raw_listing list" where
  "scenario_raw = [scenario_row1, scenario_row2, scenario_row3]"

text \<open>A file system with that one file, and a reading of text cells that knows no number.\<close>

definition scenario_read_csv :: "string \<Rightarrow> error + raw_listing list" where
  "scenario_read_csv path =
     (if path = ''data/Airbnb_site_hotel_new.csv'' then Inr scenario_raw
      else Inl (FileNotFoundError ''No such file or directory''))"

definition no_number :: "string \<Rightarrow> pyfloat" where
  "no_number s = NaN"
text \<open>The frame and the statistics that the loader makes of these rows.\<close>

definition scenario_clean1 :: listing where
  "scenario_clean1 =
     \<lparr> id_col = Num (Fin 1), host_id = Num (Fin 10), city = Some ''Tokyo'',
       area = Some ''Asia'', room_type = Num (Fin 1), price = Str ''1,250'',
       bathrooms = Str ''1,5'', consumer = Str ''6,5'', host_response_rate = Str ''0,9'',
       host_acceptance_rate = Num (Fin 1), sales = Fin 100, host_since = Str ''1200.0'',
       host_Certification = Num (Fin 1), guest_favourite_col = Num NaN,
       accommodates = Fin 2, bedrooms = Fin 1, beds = Fin 1, total_reviewers_number = Fin 10,
       price_clean = Fin 1250, bathrooms_clean = Fin (3 / 2), consumer_clean = Fin (13 / 2),
       host_response_rate_clean = Fin (9 / 10), host_acceptance_rate_clean = Fin 1,
       room_type_decoded = ''Private Room'', revenue_estimate = Fin 125000,
       host_since_clean = Fin 1200, city_lat = Fin 35.6762, city_lon = Fin 139.6503,
       host_certified = True, guest_favourite = False \<rparr>"

definition scenario_clean2 :: listing where
  "scenario_clean2 =
     \<lparr> id_col = Num (Fin 2), host_id = Num (Fin 10), city = Some ''Unknown City'',
       area = Some ''Oceania'', room_type = Num (Fin 2), price = Str ''$80'',
       bathrooms = Num NaN, consumer = Num NaN, host_response_rate = Num NaN,
       host_acceptance_rate = Num (Fin 0), sales = Fin 200, host_since = Num (Fin 800),
       host_Certification = Num NaN, guest_favourite_col = Num (Fin 1),
       accommodates = Fin 4, bedrooms = Fin 0, beds = Fin 2, total_reviewers_number = Fin 0,
       price_clean = Fin 80, bathrooms_clean = Fin 1, consumer_clean = NaN,
       host_response_rate_clean = NaN, host_acceptance_rate_clean = NaN,
       room_type_decoded = ''Entire Home/Apt'', revenue_estimate = Fin 16000,
       host_since_clean = Fin 800, city_lat = NaN, city_lon = NaN,
       host_certified = False, guest_favourite = True \<rparr>"

definition scenario_clean3 :: listing where
  "scenario_clean3 =
     \<lparr> id_col = Num (Fin 3), host_id = Num (Fin 11), city = Some ''Sydney'',
       area = Some ''Oceania'', room_type = Num (Fin 7), price = Num (Fin 60),
       bathrooms = Num (Fin 2), consumer = Str ''4,8'', host_response_rate = Str ''n/a'',
       host_acceptance_rate = Str ''0,75'', sales = NaN, host_since = Num NaN,
       host_Certification = Num (Fin 0), guest_favourite_col = Num (Fin 1),
       accommodates = NaN, bedrooms = Fin 2, beds = Fin 1, total_reviewers_number = NaN,
       price_clean = Fin 60, bathrooms_clean = Fin 2, consumer_clean = Fin (24 / 5),
       host_response_rate_clean = NaN, host_acceptance_rate_clean = Fin (3 / 4),
       room_type_decoded = ''Unknown'', revenue_estimate = NaN,
       host_since_clean = NaN, city_lat = Fin (- 33.8688), city_lon = Fin 151.2093,
       host_certified = False, guest_favourite = True \<rparr>"

definition scenario_df :: "listing list" where
  "scenario_df = [scenario_clean1, scenario_clean2, scenario_clean3]"

definition scenario_stats :: stats where
  "scenario_stats =
     \<lparr> stats_total_listings = 3, stats_original_count = 3, stats_cities = 3,
       stats_areas = 2,
       stats_unique_cities = [Some ''Sydney'', Some ''Tokyo'', Some ''Unknown City''],
       stats_unique_areas = [Some ''Asia'', Some ''Oceania''],
       stats_unique_room_types = [''Entire Home/Apt'', ''Private Room'', ''Unknown''],
       stats_avg_price = Fin (1390 / 3), stats_avg_rating = Fin (113 / 20),
       stats_total_hosts = 2, stats_date_range = (Fin 800, Fin 1200),
       stats_price_range = (Fin 60, Fin 1250),
       stats_rating_range = (Fin (24 / 5), Fin (13 / 2)) \<rparr>"

section \<open>The values of the cleaned columns\<close>

text \<open>What \<open>clean_price\<close> and \<open>convert_european_decimal\<close> return for a cell.\<close>

definition price_value :: "cell \<Rightarrow> pyfloat" where
  "price_value v =
     (case v of
        Num x \<Rightarrow> x
      | Str s \<Rightarrow> if s = [] then NaN
                 else float_or_missing (price_text (strip_price_symbols s)))"

definition decimal_value :: "cell \<Rightarrow> pyfloat" where
  "decimal_value v =
     (case v of
        Num x \<Rightarrow> if x = NaN \<or> x = Fin 0 then NaN else x
      | Str s \<Rightarrow> if s = [] then NaN
                 else float_or_missing (py_replace '','' ''.'' (py_strip s)))"

section \<open>Facts about the string functions\<close>

lemmas float_eval =
  py_float_def strip_with_def c_isspace_def is_digit_def parse_number_def
  parse_exponent_def split_sign_def digits_val_def ascii_lower_def utf8_head_def
  is_cont_def cont_bits_def py_isspace_def unicode_decimal_def decimal_zeros_def
  strtod_range_def DBL_OVERFLOW_def DBL_UNDERFLOW_def float_of_int_def

lemmas text_eval =
  float_or_missing_def after_last_comma_def strip_price_symbols_def price_text_def
  claimed_price_text_def claimed_clean_price_def py_strip_def py_len_def py_replace_def

lemma py_float_error: "py_float s = Inl e \<Longrightarrow> \<exists>m. e = ValueError m"
  by (auto simp: py_float_def Let_def split: if_splits prod.splits option.splits)

lemma except_py_float: "except_value_attribute (py_float s) = Inr (float_or_missing s)"
proof (cases "py_float s")
  case (Inl e)
  then obtain m where "e = ValueError m"
    using py_float_error by blast
  with Inl show ?thesis
    by (simp add: float_or_missing_def)
next
  case (Inr y)
  then show ?thesis
    by (simp add: float_or_missing_def)
qed

lemma py_split_not_Nil: "py_split sep s \<noteq> []"
  by (induction s) (auto split: list.splits)

lemma py_split_single: "(tl (py_split sep s) = []) = (sep \<notin> set s)"
  by (induction s) (auto split: list.splits simp: py_split_not_Nil)

lemma last_py_split: "last (py_split sep s) = rev (takeWhile (\<lambda>c. c \<noteq> sep) (rev s))"
proof (induction s)
  case Nil
  then show ?case by simp
next
  case (Cons c cs)
  obtain p ps where sp: "py_split sep cs = p # ps"
    using py_split_not_Nil by (cases "py_split sep cs") auto
  show ?case
  proof (cases "c = sep")
    case True
    then show ?thesis
      using Cons sp by (simp add: takeWhile_append)
  next
    case False
    show ?thesis
    proof (cases "sep \<in> set cs")
      case True
      then have "ps \<noteq> []"
        using py_split_single[of sep cs] sp by auto
      then show ?thesis
        using Cons sp False True by (auto simp: takeWhile_append)
    next
      case nin: False
      then have e: "ps = []"
        using py_split_single[of sep cs] sp by auto
      have h: "takeWhile (\<lambda>c. c \<noteq> sep) (rev cs) = rev cs"
        using nin by auto
      have "p = cs"
        using Cons sp e by (simp add: h)
      then show ?thesis
        using sp False e nin by (simp add: takeWhile_append h)
    qed
  qed
qed

lemma clean_price_Str:
  assumes ne: "s \<noteq> []"
  shows "clean_price (PyStr s) = Inr (float_or_missing (price_text (strip_price_symbols s)))"
proof -
  obtain p ps where sp: "py_split CHR '','' (strip_price_symbols s) = p # ps"
    using py_split_not_Nil by (cases "py_split CHR '','' (strip_price_symbols s)") auto
  have l: "last (p # ps) = after_last_comma (strip_price_symbols s)"
    using last_py_split[of "CHR '',''" "strip_price_symbols s"] sp
    by (simp add: after_last_comma_def)
  show ?thesis
    using ne sp l
    by (simp add: clean_price_def Let_def strip_price_symbols_def[symmetric] price_text_def
        except_py_float del: last.simps)
qed

lemma clean_price_PyFloat: "clean_price (PyFloat x) = Inr x"
  by (cases x) (simp_all add: clean_price_def)

lemma clean_price_PyInt: "clean_price (PyInt n) = float_of_int n"
  by (simp add: clean_price_def)

lemma convert_european_decimal_PyStr:
  "s \<noteq> [] \<Longrightarrow>
   convert_european_decimal (PyStr s) =
     Inr (float_or_missing (py_replace '','' ''.'' (py_strip s)))"
  by (simp add: convert_european_decimal_def eq_zero_def Let_def except_py_float)

lemma convert_european_decimal_PyFloat:
  "convert_european_decimal (PyFloat x) = Inr (if x = NaN \<or> x = Fin 0 then NaN else x)"
  by (cases x) (simp_all add: convert_european_decimal_def eq_zero_def)

lemma convert_european_decimal_PyInt:
  "convert_european_decimal (PyInt n) = (if n = 0 then Inr NaN else float_of_int n)"
  by (simp add: convert_european_decimal_def eq_zero_def)

lemma float_of_int_range:
  "float_of_int n =
     (if 2 ^ 1024 - 2 ^ 970 \<le> \<bar>n\<bar>
      then Inl (OverflowError ''int too large to convert to float'')
      else Inr (Fin (of_int n)))"
proof -
  have a: "DBL_OVERFLOW = of_int (2 ^ 1024 - 2 ^ 970)"
    by (simp add: DBL_OVERFLOW_def)
  have b: "\<bar>of_int n :: rat\<bar> = of_int \<bar>n\<bar>"
    by simp
  have "(DBL_OVERFLOW \<le> \<bar>of_int n :: rat\<bar>) = (2 ^ 1024 - 2 ^ 970 \<le> \<bar>n\<bar>)"
    unfolding a b by (rule of_int_le_iff)
  then show ?thesis
    by (simp add: float_of_int_def)
qed

section \<open>The scenario, evaluated\<close>

lemmas row_eval =
  scenario_row1_def scenario_row2_def scenario_row3_def scenario_raw_def
  scenario_clean1_def scenario_clean2_def scenario_clean3_def scenario_df_def
  scenario_stats_def scenario_read_csv_def no_number_def

lemmas clean_eval =
  clean_price_def convert_european_decimal_def clean_host_since_def py_int_def
  eq_zero_def py_strip_def py_len_def py_replace_def

lemmas column_eval =
  err_bind_def map_room_type_def ROOM_TYPE_MAP_def fillna_str_def fillna_def
  map_city_area_def CORRECT_CITY_AREA_def fillna_series_def coord_lat_def coord_lon_def
  CITY_COORDINATES_def fillna0_astype_bool_def to_numeric_def

lemma scenario_derive1:
  "derive_fields no_number scenario_row1 = Inr (scenario_clean1\<lparr> beds := NaN \<rparr>)"
  by (simp add: derive_fields_def row_eval clean_eval float_eval column_eval)

lemma scenario_derive2:
  "derive_fields no_number scenario_row2 =
     Inr (scenario_clean2\<lparr> bedrooms := NaN, bathrooms_clean := NaN \<rparr>)"
  by (simp add: derive_fields_def row_eval clean_eval float_eval column_eval)

lemma scenario_derive3:
  "derive_fields no_number scenario_row3 = Inr scenario_clean3"
  by (simp add: derive_fields_def row_eval clean_eval float_eval column_eval)
lemma scenario_fill:
  "map fill_missing
     [scenario_clean1\<lparr> beds := NaN \<rparr>,
      scenario_clean2\<lparr> bedrooms := NaN, bathrooms_clean := NaN \<rparr>,
      scenario_clean3] = scenario_df"
  by (simp add: fill_missing_def fillna_def row_eval)

lemmas stats_eval =
  calculate_statistics_def py_sorted_def List.map_filter_def nunique_text_def
  nunique_cell_def fmean_def fmin_def fmax_def notnan_def

lemma scenario_sorted_cities:
  "sort [''Tokyo'', ''Unknown City'', ''Sydney''] = [''Sydney'', ''Tokyo'', ''Unknown City'']"
  by (simp add: less_eq_char_def less_char_def)

lemma scenario_sorted_areas: "sort [''Asia'', ''Oceania''] = [''Asia'', ''Oceania'']"
  by (simp add: less_eq_char_def less_char_def)

lemma scenario_sorted_room_types:
  "sort [''Private Room'', ''Entire Home/Apt'', ''Unknown''] =
     [''Entire Home/Apt'', ''Private Room'', ''Unknown'']"
  by (simp add: less_eq_char_def less_char_def)

lemma scenario_statistics:
  "calculate_statistics (length scenario_raw) scenario_df = Inr scenario_stats"
  by (simp add: stats_eval err_bind_def row_eval scenario_sorted_cities scenario_sorted_areas
      scenario_sorted_room_types)

lemma load_and_clean_data_intro:
  assumes "read_csv path = Inr raw"
    and "err_map (derive_fields tn) raw = Inr derived"
    and "calculate_statistics (length raw) (map fill_missing derived) = Inr st"
  shows "load_and_clean_data read_csv tn path = Inr (map fill_missing derived, st)"
  using assms by (simp add: load_and_clean_data_def err_bind_def Let_def)

lemma scenario_load:
  "load_and_clean_data scenario_read_csv no_number ''data/Airbnb_site_hotel_new.csv'' =
     Inr (scenario_df, scenario_stats)"
proof -
  let ?derived = "[scenario_clean1\<lparr> beds := NaN \<rparr>,
      scenario_clean2\<lparr> bedrooms := NaN, bathrooms_clean := NaN \<rparr>,
      scenario_clean3]"
  have r: "scenario_read_csv ''data/Airbnb_site_hotel_new.csv'' = Inr scenario_raw"
    by (simp add: scenario_read_csv_def)
  have d: "err_map (derive_fields no_number) scenario_raw = Inr ?derived"
    by (simp add: scenario_raw_def scenario_derive1 scenario_derive2 scenario_derive3
        err_bind_def)
  have s: "calculate_statistics (length scenario_raw) (map fill_missing ?derived) =
      Inr scenario_stats"
    unfolding scenario_fill by (rule scenario_statistics)
  show ?thesis
    using load_and_clean_data_intro[where read_csv = scenario_read_csv
        and path = "''data/Airbnb_site_hotel_new.csv''", OF r d s]
    unfolding scenario_fill .
qed

section \<open>Facts about \<open>filter_data\<close>\<close>

lemma select_rows_if: "(if c then select_rows P st else st) = select_rows (\<lambda>r. c \<longrightarrow> P r) st"
  by (simp add: select_rows_def)

lemma select_rows_price:
  "(case pr of None \<Rightarrow> st | Some (lo, hi) \<Rightarrow> select_rows (P lo hi) st) =
   select_rows (\<lambda>r. \<forall>lo hi. pr = Some (lo, hi) \<longrightarrow> P lo hi r) st"
  by (cases pr) (auto simp: select_rows_def)

lemma select_rows_twice:
  "select_rows Q (select_rows P st) = select_rows (\<lambda>r. P r \<and> Q r) st"
  by (simp add: select_rows_def)

lemma select_rows_init:
  "select_rows P \<lparr> st_df = df, st_filtered = df \<rparr> = \<lparr> st_df = df, st_filtered = filter P df \<rparr>"
  by (simp add: select_rows_def)

lemma filter_data_run_eq:
  "filter_data_run df cities areas room_types price_range min_reviews min_rating
       guest_favourites_only certified_hosts_only =
   \<lparr> st_df = df,
     st_filtered =
       filter (\<lambda>r. (supplied_list cities \<longrightarrow> isin (city r) cities)
                  \<and> (supplied_list areas \<longrightarrow> isin (area r) areas)
                  \<and> (supplied_list room_types \<longrightarrow> isin (room_type_decoded r) room_types)
                  \<and> (\<forall>lo hi. price_range = Some (lo, hi) \<longrightarrow>
                        fge (price_clean r) lo \<and> fle (price_clean r) hi)
                  \<and> (min_reviews > 0 \<longrightarrow>
                        fge (total_reviewers_number r) (Fin (of_int min_reviews)))
                  \<and> (fgt min_rating (Fin 0) \<longrightarrow> fge (consumer_clean r) min_rating)
                  \<and> (guest_favourites_only \<longrightarrow> guest_favourite r)
                  \<and> (certified_hosts_only \<longrightarrow> host_certified r)) df \<rparr>"
  unfolding filter_data_run_def Let_def select_rows_if select_rows_price select_rows_twice
    select_rows_init
  by (simp add: conj_assoc)

lemma supplied_list_iff: "supplied_list xs = (\<exists>l. xs = Some l \<and> l \<noteq> [])"
  by (cases xs) (auto simp: supplied_list_def)

lemma filter_data_eq:
  "filter_data df cities areas room_types price_range min_reviews min_rating
       guest_favourites_only certified_hosts_only =
   filter (\<lambda>r. (\<forall>l. cities = Some l \<and> l \<noteq> [] \<longrightarrow> city r \<in> set l)
              \<and> (\<forall>l. areas = Some l \<and> l \<noteq> [] \<longrightarrow> area r \<in> set l)
              \<and> (\<forall>l. room_types = Some l \<and> l \<noteq> [] \<longrightarrow> room_type_decoded r \<in> set l)
              \<and> (\<forall>lo hi. price_range = Some (lo, hi) \<longrightarrow>
                    fge (price_clean r) lo \<and> fle (price_clean r) hi)
              \<and> (min_reviews > 0 \<longrightarrow>
                    fge (total_reviewers_number r) (Fin (of_int min_reviews)))
              \<and> (fgt min_rating (Fin 0) \<longrightarrow> fge (consumer_clean r) min_rating)
              \<and> (guest_favourites_only \<longrightarrow> guest_favourite r)
              \<and> (certified_hosts_only \<longrightarrow> host_certified r)) df"
proof -
  have a: "(supplied_list xs \<longrightarrow> isin x xs) = (\<forall>l. xs = Some l \<and> l \<noteq> [] \<longrightarrow> x \<in> set l)"
    for x :: 'a and xs
    by (cases xs) (auto simp: supplied_list_def isin_def)
  show ?thesis
    unfolding filter_data_def filter_data_run_eq a by simp
qed

lemma fle_NaN: "\<not> fle x NaN" "\<not> fle NaN x"
  by (cases x; simp)+

lemma fle_refl: "fle (Fin a) (Fin a)"
  by simp

section \<open>Facts about the loader\<close>

lemma clean_price_value: "clean_price (box v) = Inr (price_value v)"
proof (cases v)
  case (Num x)
  then show ?thesis by (simp add: clean_price_PyFloat price_value_def)
next
  case (Str s)
  then show ?thesis
    by (cases "s = []") (simp_all add: clean_price_Str price_value_def, simp add: clean_price_def)
qed

lemma convert_european_decimal_value:
  "convert_european_decimal (box v) = Inr (decimal_value v)"
proof (cases v)
  case (Num x)
  then show ?thesis by (simp add: convert_european_decimal_PyFloat decimal_value_def)
next
  case (Str s)
  then show ?thesis
    by (cases "s = []")
      (simp_all add: convert_european_decimal_PyStr decimal_value_def,
        simp add: convert_european_decimal_def)
qed

lemma err_map_Inr:
  "err_map f xs = Inr ys \<Longrightarrow>
   length ys = length xs \<and> (\<forall>i<length xs. f (xs ! i) = Inr (ys ! i))"
proof (induction xs arbitrary: ys)
  case Nil
  then show ?case by simp
next
  case (Cons x xs)
  from Cons.prems obtain y zs where y: "f x = Inr y" and zs: "err_map f xs = Inr zs"
    and ys: "ys = y # zs"
    by (auto simp: err_bind_def split: sum.splits)
  from Cons.IH[OF zs] have "length zs = length xs"
    and ih: "\<forall>i<length xs. f (xs ! i) = Inr (zs ! i)"
    by simp_all
  then show ?case
    using y ys by (auto simp: nth_Cons split: nat.splits)
qed

lemma derive_fields_Inr:
  assumes "derive_fields tn r = Inr l"
  shows "\<exists>hs. clean_host_since (box (raw_host_since r)) = Inr hs \<and>
     l = \<lparr> id_col = raw_id r,
           host_id = raw_host_id r,
           city = raw_city r,
           area = fillna_series (map_city_area (raw_city r)) (raw_area r),
           room_type = raw_room_type r,
           price = raw_price r,
           bathrooms = raw_bathrooms r,
           consumer = raw_consumer r,
           host_response_rate = raw_host_response_rate r,
           host_acceptance_rate = raw_host_acceptance_rate r,
           sales = raw_sales r,
           host_since = raw_host_since r,
           host_Certification = raw_host_Certification r,
           guest_favourite_col = raw_guest_favourite r,
           accommodates = to_numeric tn (raw_accommodates r),
           bedrooms = to_numeric tn (raw_bedrooms r),
           beds = to_numeric tn (raw_beds r),
           total_reviewers_number = to_numeric tn (raw_total_reviewers_number r),
           price_clean = price_value (raw_price r),
           bathrooms_clean = decimal_value (raw_bathrooms r),
           consumer_clean = decimal_value (raw_consumer r),
           host_response_rate_clean = decimal_value (raw_host_response_rate r),
           host_acceptance_rate_clean = decimal_value (raw_host_acceptance_rate r),
           room_type_decoded = fillna_str (map_room_type (raw_room_type r)) ''Unknown'',
           revenue_estimate = fmul (price_value (raw_price r)) (raw_sales r),
           host_since_clean = hs,
           city_lat = coord_lat (raw_city r),
           city_lon = coord_lon (raw_city r),
           host_certified = fillna0_astype_bool (raw_host_Certification r),
           guest_favourite = fillna0_astype_bool (raw_guest_favourite r) \<rparr>"
  using assms
  unfolding derive_fields_def clean_price_value convert_european_decimal_value
  by (cases "clean_host_since (box (raw_host_since r))") (auto simp: err_bind_def to_numeric_def)

lemma load_and_clean_data_Inr:
  assumes "load_and_clean_data read_csv tn path = Inr (df, st)"
  shows "\<exists>raw derived. read_csv path = Inr raw
     \<and> err_map (derive_fields tn) raw = Inr derived
     \<and> df = map fill_missing derived
     \<and> calculate_statistics (length raw) df = Inr st"
  using assms
  by (auto simp: load_and_clean_data_def err_bind_def Let_def split: sum.splits)

lemma load_and_clean_data_rows:
  assumes "load_and_clean_data read_csv tn path = Inr (df, st)"
  shows "\<exists>raw derived. read_csv path = Inr raw
     \<and> length derived = length raw \<and> length df = length raw
     \<and> (\<forall>i<length raw. derive_fields tn (raw ! i) = Inr (derived ! i)
            \<and> df ! i = fill_missing (derived ! i))
     \<and> df = map fill_missing derived
     \<and> calculate_statistics (length raw) df = Inr st"
proof -
  from load_and_clean_data_Inr[OF assms] obtain raw derived where
    r: "read_csv path = Inr raw" and d: "err_map (derive_fields tn) raw = Inr derived"
    and f: "df = map fill_missing derived"
    and s: "calculate_statistics (length raw) df = Inr st"
    by blast
  from err_map_Inr[OF d] have "length derived = length raw"
    and "\<forall>i<length raw. derive_fields tn (raw ! i) = Inr (derived ! i)"
    by simp_all
  then show ?thesis
    using r f s by auto
qed

lemma set_py_unique: "set (py_unique xs) = set xs"
  by (induction xs rule: py_unique.induct) auto

lemma distinct_py_unique: "distinct (py_unique xs)"
  by (induction xs rule: py_unique.induct) (auto simp: set_py_unique)

lemma map_filter_all_Some:
  "length (List.map_filter (\<lambda>x. x) xs) = length xs \<Longrightarrow>
   xs = map Some (List.map_filter (\<lambda>x. x) xs)"
proof (induction xs)
  case Nil
  then show ?case by (simp add: List.map_filter_def)
next
  case (Cons x xs)
  have le: "length (List.map_filter (\<lambda>x. x) xs) \<le> length xs"
    by (simp add: List.map_filter_def)
  show ?case
  proof (cases x)
    case None
    then show ?thesis
      using Cons.prems le by (simp add: List.map_filter_def)
  next
    case (Some a)
    then show ?thesis
      using Cons by (simp add: List.map_filter_def)
  qed
qed

lemma map_filter_map_Some: "List.map_filter (\<lambda>x. x) (map Some zs) = zs"
  by (induction zs) (simp_all add: List.map_filter_def)

lemma py_sorted_Inr:
  assumes "py_sorted xs = Inr ys"
  shows "set ys = set xs \<and> (distinct xs \<longrightarrow> distinct ys)
     \<and> sorted (List.map_filter (\<lambda>x. x) ys)"
proof (cases "length (List.map_filter (\<lambda>x. x) xs) = length xs")
  case True
  let ?strs = "List.map_filter (\<lambda>x. x) xs"
  from True have xs: "xs = map Some ?strs"
    by (rule map_filter_all_Some)
  from assms True have ys: "ys = map Some (sort ?strs)"
    by (simp add: py_sorted_def Let_def)
  have "set xs = set (map Some ?strs)"
    by (rule arg_cong[OF xs])
  then have "set ys = set xs"
    by (simp add: ys)
  moreover have "distinct xs \<longrightarrow> distinct ys"
  proof
    assume "distinct xs"
    then have "distinct (map Some ?strs)"
      using arg_cong[OF xs, of distinct] by blast
    then have "distinct ?strs" by (simp add: distinct_map)
    then show "distinct ys" by (simp add: ys distinct_map)
  qed
  moreover have "sorted (List.map_filter (\<lambda>x. x) ys)"
    by (simp add: ys map_filter_map_Some)
  ultimately show ?thesis by blast
next
  case False
  with assms have "ys = xs" and "List.map_filter (\<lambda>x. x) xs = []"
    by (auto simp: py_sorted_def Let_def split: if_splits)
  then show ?thesis by simp
qed

lemma calculate_statistics_Inr:
  assumes "calculate_statistics n df = Inr st"
  shows "py_sorted (py_unique (map city df)) = Inr (stats_unique_cities st)
     \<and> py_sorted (py_unique (map area df)) = Inr (stats_unique_areas st)
     \<and> stats_total_listings st = length df \<and> stats_original_count st = n"
  using assms
  by (auto simp: calculate_statistics_def err_bind_def split: sum.splits)

lemma fill_missing_other:
  "fill_missing l =
     l\<lparr> bedrooms := bedrooms (fill_missing l),
        bathrooms_clean := bathrooms_clean (fill_missing l),
        beds := beds (fill_missing l) \<rparr>"
  by (simp add: fill_missing_def)

lemma map_room_type_cases:
  "fillna_str (map_room_type c) ''Unknown'' =
     (case c of
        Num (Fin q) \<Rightarrow>
          (if q = 1 then ''Private Room'' else if q = 2 then ''Entire Home/Apt''
           else if q = 3 then ''Shared Room'' else if q = 4 then ''Hotel Room''
           else ''Unknown'')
      | _ \<Rightarrow> ''Unknown'')"
  by (auto simp: fillna_str_def map_room_type_def ROOM_TYPE_MAP_def
      split: cell.splits pyfloat.splits)

section \<open>The claims\<close>

text \<open>
  C3, as amended. \<open>clean_price\<close> maps the missing sentinel and the empty string to the
  missing sentinel and returns a float as it is. An int is converted to a float; that
  raises \<open>OverflowError\<close> for an int beyond the range of a double and for no other int.
  From any other string the whitespace at both ends, the symbols \<open>$\<close>, euro and pound
  and the inner spaces are removed; when the rest has a comma and no period, exactly two
  characters after the last comma make every comma a decimal point and otherwise the
  commas are removed; the result is parsed as a float, and a text that does not parse
  gives the missing sentinel without raising. In particular \<open>"1,250"\<close> gives 1250,
  \<open>"45,00"\<close> gives 45, \<open>"$99"\<close> gives 99 and \<open>""\<close> is missing; \<open>"45,00"\<close> followed by
  a newline still gives 45, \<open>"12,50"\<close> followed by a no-break space gives 12.5, a
  euro sign before \<open>" 1 250,00"\<close> gives 1250, \<open>"$99"\<close> after the control character 28
  gives 99, the Arabic-Indic digits one and two give 12, and \<open>"1e400"\<close> gives infinity.
\<close>

theorem clean_price_amended:
  "clean_price v =
     (case v of
        PyInt n \<Rightarrow> if 2 ^ 1024 - 2 ^ 970 \<le> \<bar>n\<bar>
                   then Inl (OverflowError ''int too large to convert to float'')
                   else Inr (Fin (of_int n))
      | PyFloat x \<Rightarrow> Inr x
      | PyStr s \<Rightarrow> Inr (if s = [] then NaN
                        else float_or_missing (price_text (strip_price_symbols s))))
   \<and> clean_price (PyStr ''1,250'') = Inr (Fin 1250)
   \<and> clean_price (PyStr ''45,00'') = Inr (Fin 45)
   \<and> clean_price (PyStr ''$99'') = Inr (Fin 99)
   \<and> clean_price (PyStr []) = Inr NaN
   \<and> clean_price (PyFloat NaN) = Inr NaN
   \<and> clean_price (PyInt 250) = Inr (Fin 250)
   \<and> clean_price (PyStr (''45,00'' @ [CHR 0x0A])) = Inr (Fin 45)
   \<and> clean_price (PyStr (''12,50'' @ nbsp)) = Inr (Fin 12.5)
   \<and> clean_price (PyStr (euro @ '' 1 250,00'')) = Inr (Fin 1250)
   \<and> clean_price (PyStr ''12 dollars'') = Inr NaN
   \<and> clean_price (PyStr ([CHR 0x1C] @ ''$99'')) = Inr (Fin 99)
   \<and> clean_price (PyStr [CHR 0xD9, CHR 0xA1, CHR 0xD9, CHR 0xA2]) = Inr (Fin 12)
   \<and> clean_price (PyStr ''1e400'') = Inr PInf"
proof -
  have gen: "clean_price w =
     (case w of
        PyInt n \<Rightarrow> if 2 ^ 1024 - 2 ^ 970 \<le> \<bar>n\<bar>
                   then Inl (OverflowError ''int too large to convert to float'')
                   else Inr (Fin (of_int n))
      | PyFloat x \<Rightarrow> Inr x
      | PyStr s \<Rightarrow> Inr (if s = [] then NaN
                        else float_or_missing (price_text (strip_price_symbols s))))" for w
  proof (cases w)
    case (PyInt n)
    then show ?thesis by (simp add: clean_price_PyInt float_of_int_range)
  next
    case (PyFloat x)
    then show ?thesis by (simp add: clean_price_PyFloat)
  next
    case (PyStr s)
    then show ?thesis
      by (cases "s = []") (simp_all add: clean_price_Str, simp add: clean_price_def)
  qed
  have "clean_price (PyStr ''1,250'') = Inr (Fin 1250)"
    by (simp add: gen text_eval float_eval)
  moreover have "clean_price (PyStr ''45,00'') = Inr (Fin 45)"
    by (simp add: gen text_eval float_eval)
  moreover have "clean_price (PyStr ''$99'') = Inr (Fin 99)"
    by (simp add: gen text_eval float_eval)
  moreover have "clean_price (PyStr []) = Inr NaN"
    by (simp add: gen)
  moreover have "clean_price (PyFloat NaN) = Inr NaN"
    by (simp add: gen)
  moreover have "clean_price (PyInt 250) = Inr (Fin 250)"
    by (simp add: gen)
  moreover have "clean_price (PyStr (''45,00'' @ [CHR 0x0A])) = Inr (Fin 45)"
    by (simp add: gen text_eval float_eval)
  moreover have "clean_price (PyStr (''12,50'' @ nbsp)) = Inr (Fin 12.5)"
    by (simp add: gen text_eval float_eval)
  moreover have "clean_price (PyStr (euro @ '' 1 250,00'')) = Inr (Fin 1250)"
    by (simp add: gen text_eval float_eval)
  moreover have "clean_price (PyStr ''12 dollars'') = Inr NaN"
    by (simp add: gen text_eval float_eval)
  moreover have "clean_price (PyStr ([CHR 0x1C] @ ''$99'')) = Inr (Fin 99)"
    by (simp add: gen text_eval float_eval)
  moreover have "clean_price (PyStr [CHR 0xD9, CHR 0xA1, CHR 0xD9, CHR 0xA2]) = Inr (Fin 12)"
    by (simp add: gen text_eval float_eval)
  moreover have "clean_price (PyStr ''1e400'') = Inr PInf"
    by (simp add: gen text_eval float_eval)
  ultimately show ?thesis
    using gen[of v] by simp
qed

theorem clean_price_amended_witness:
  "clean_price (PyStr ([CHR 0x09] @ ''$ 1,234,567 '')) = Inr (Fin 1234567)
   \<and> clean_price (PyStr ''12,5'') = Inr (Fin 125)
   \<and> clean_price (PyStr (nbsp @ pound @ ''7,25'' @ [CHR 0x1F])) = Inr (Fin 7.25)
   \<and> clean_price (PyStr ''-1e400'') = Inr NInf
   \<and> clean_price (PyInt (- 3)) = Inr (Fin (- 3))
   \<and> clean_price (PyInt (10 ^ 400)) = Inl (OverflowError ''int too large to convert to float'')"
proof -
  have a: "clean_price (PyStr ([CHR 0x09] @ ''$ 1,234,567 '')) =
      Inr (float_or_missing (price_text (strip_price_symbols ([CHR 0x09] @ ''$ 1,234,567 ''))))"
    using clean_price_amended[of "PyStr ([CHR 0x09] @ ''$ 1,234,567 '')"] by simp
  have b: "clean_price (PyStr ''12,5'') =
      Inr (float_or_missing (price_text (strip_price_symbols ''12,5'')))"
    using clean_price_amended[of "PyStr ''12,5''"] by simp
  have c: "clean_price (PyStr (nbsp @ pound @ ''7,25'' @ [CHR 0x1F])) =
      Inr (float_or_missing
             (price_text (strip_price_symbols (nbsp @ pound @ ''7,25'' @ [CHR 0x1F]))))"
    using clean_price_amended[of "PyStr (nbsp @ pound @ ''7,25'' @ [CHR 0x1F])"] by simp
  have d: "clean_price (PyStr ''-1e400'') =
      Inr (float_or_missing (price_text (strip_price_symbols ''-1e400'')))"
    using clean_price_amended[of "PyStr ''-1e400''"] by simp
  have e: "clean_price (PyInt (- 3)) = Inr (Fin (- 3))"
    using clean_price_amended[of "PyInt (- 3)"] by simp
  have f: "clean_price (PyInt (10 ^ 400)) =
      Inl (OverflowError ''int too large to convert to float'')"
    using clean_price_amended[of "PyInt (10 ^ 400)"] by simp
  show ?thesis
    unfolding a b c d e f by (simp add: text_eval float_eval)
qed

text \<open>
  C3, as the claim words it, fails at two inputs. At the string \<open>"1e,+5"\<close> two
  characters that are not two digits follow the last comma, so the claim has the commas
  removed and \<open>"1e+5"\<close> parsed as 100000, while the code turns the comma into a period
  and \<open>"1e.+5"\<close> does not parse. At the int \<open>2 ** 1024\<close> the claim passes the number
  through without raising, while \<open>float(value)\<close> raises \<open>OverflowError\<close>.
\<close>

theorem clean_price_two_digits_counterexample:
  "clean_price (PyStr ''1e,+5'') = Inr NaN
   \<and> claimed_clean_price (PyStr ''1e,+5'') = Fin 100000
   \<and> clean_price (PyInt (2 ^ 1024)) =
       Inl (OverflowError ''int too large to convert to float'')"
  by (simp add: clean_price_Str clean_price_PyInt float_of_int_range text_eval float_eval)

text \<open>
  C4, as amended. \<open>convert_european_decimal\<close> maps the missing sentinel, the empty
  string and the number zero to the missing sentinel and returns any other float as it
  is. Any other int is converted to a float; that raises \<open>OverflowError\<close> for an int
  beyond the range of a double and for no other int. From any other string the whitespace
  at both ends is removed, every comma is replaced by a period and the result is parsed as
  a float, a text that does not parse giving the missing sentinel without raising. In
  particular \<open>"6,81"\<close> gives 6.81 and \<open>0\<close> is missing; \<open>"7,5"\<close> between the control
  characters 28 and 31 gives 7.5, \<open>"6,81"\<close> followed by a no-break space gives 6.81,
  \<open>"6,81"\<close> in fullwidth digits gives 6.81, and \<open>"1e400"\<close> gives infinity.
\<close>

theorem convert_european_decimal_amended:
  "convert_european_decimal v =
     (case v of
        PyInt n \<Rightarrow> if n = 0 then Inr NaN
                   else if 2 ^ 1024 - 2 ^ 970 \<le> \<bar>n\<bar>
                   then Inl (OverflowError ''int too large to convert to float'')
                   else Inr (Fin (of_int n))
      | PyFloat x \<Rightarrow> Inr (if x = NaN \<or> x = Fin 0 then NaN else x)
      | PyStr s \<Rightarrow> Inr (if s = [] then NaN
                        else float_or_missing (py_replace '','' ''.'' (py_strip s))))
   \<and> convert_european_decimal (PyStr ''6,81'') = Inr (Fin 6.81)
   \<and> convert_european_decimal (PyInt 0) = Inr NaN
   \<and> convert_european_decimal (PyFloat (Fin 0)) = Inr NaN
   \<and> convert_european_decimal (PyStr []) = Inr NaN
   \<and> convert_european_decimal (PyStr ([CHR 0x1C] @ ''7,5'' @ [CHR 0x1F])) = Inr (Fin 7.5)
   \<and> convert_european_decimal (PyStr (''6,81'' @ nbsp)) = Inr (Fin 6.81)
   \<and> convert_european_decimal (PyStr ''abc'') = Inr NaN
   \<and> convert_european_decimal
         (PyStr ([CHR 0xEF, CHR 0xBC, CHR 0x96] @ '','' @
                 [CHR 0xEF, CHR 0xBC, CHR 0x98, CHR 0xEF, CHR 0xBC, CHR 0x91])) = Inr (Fin 6.81)
   \<and> convert_european_decimal (PyStr ''1e400'') = Inr PInf"
proof -
  have gen: "convert_european_decimal w =
     (case w of
        PyInt n \<Rightarrow> if n = 0 then Inr NaN
                   else if 2 ^ 1024 - 2 ^ 970 \<le> \<bar>n\<bar>
                   then Inl (OverflowError ''int too large to convert to float'')
                   else Inr (Fin (of_int n))
      | PyFloat x \<Rightarrow> Inr (if x = NaN \<or> x = Fin 0 then NaN else x)
      | PyStr s \<Rightarrow> Inr (if s = [] then NaN
                        else float_or_missing (py_replace '','' ''.'' (py_strip s))))" for w
  proof (cases w)
    case (PyInt n)
    then show ?thesis by (simp add: convert_european_decimal_PyInt float_of_int_range)
  next
    case (PyFloat x)
    then show ?thesis by (simp add: convert_european_decimal_PyFloat)
  next
    case (PyStr s)
    then show ?thesis
      by (cases "s = []")
        (simp_all add: convert_european_decimal_PyStr, simp add: convert_european_decimal_def)
  qed
  have "convert_european_decimal (PyStr ''6,81'') = Inr (Fin 6.81)"
    by (simp add: gen text_eval float_eval)
  moreover have "convert_european_decimal (PyInt 0) = Inr NaN"
    by (simp add: gen)
  moreover have "convert_european_decimal (PyFloat (Fin 0)) = Inr NaN"
    by (simp add: gen)
  moreover have "convert_european_decimal (PyStr []) = Inr NaN"
    by (simp add: gen)
  moreover have
    "convert_european_decimal (PyStr ([CHR 0x1C] @ ''7,5'' @ [CHR 0x1F])) = Inr (Fin 7.5)"
    by (simp add: gen text_eval float_eval)
  moreover have "convert_european_decimal (PyStr (''6,81'' @ nbsp)) = Inr (Fin 6.81)"
    by (simp add: gen text_eval float_eval)
  moreover have "convert_european_decimal (PyStr ''abc'') = Inr NaN"
    by (simp add: gen text_eval float_eval)
  moreover have "convert_european_decimal
         (PyStr ([CHR 0xEF, CHR 0xBC, CHR 0x96] @ '','' @
                 [CHR 0xEF, CHR 0xBC, CHR 0x98, CHR 0xEF, CHR 0xBC, CHR 0x91])) = Inr (Fin 6.81)"
    by (simp add: gen text_eval float_eval)
  moreover have "convert_european_decimal (PyStr ''1e400'') = Inr PInf"
    by (simp add: gen text_eval float_eval)
  ultimately show ?thesis
    using gen[of v] by simp
qed

theorem convert_european_decimal_amended_witness:
  "convert_european_decimal (PyStr ([CHR 0x0A] @ '' 0,9 '' @ nbsp)) = Inr (Fin 0.9)
   \<and> convert_european_decimal (PyStr ''1,2,3'') = Inr NaN
   \<and> convert_european_decimal (PyStr ''1e-400'') = Inr (Fin 0)
   \<and> convert_european_decimal (PyFloat (Fin 3)) = Inr (Fin 3)
   \<and> convert_european_decimal (PyInt 7) = Inr (Fin 7)
   \<and> convert_european_decimal (PyInt (- (10 ^ 400))) =
       Inl (OverflowError ''int too large to convert to float'')"
proof -
  have a: "convert_european_decimal (PyStr ([CHR 0x0A] @ '' 0,9 '' @ nbsp)) =
      Inr (float_or_missing (py_replace '','' ''.'' (py_strip ([CHR 0x0A] @ '' 0,9 '' @ nbsp))))"
    using convert_european_decimal_amended[of "PyStr ([CHR 0x0A] @ '' 0,9 '' @ nbsp)"] by simp
  have b: "convert_european_decimal (PyStr ''1,2,3'') =
      Inr (float_or_missing (py_replace '','' ''.'' (py_strip ''1,2,3'')))"
    using convert_european_decimal_amended[of "PyStr ''1,2,3''"] by simp
  have c: "convert_european_decimal (PyStr ''1e-400'') =
      Inr (float_or_missing (py_replace '','' ''.'' (py_strip ''1e-400'')))"
    using convert_european_decimal_amended[of "PyStr ''1e-400''"] by simp
  have d: "convert_european_decimal (PyFloat (Fin 3)) = Inr (Fin 3)"
    using convert_european_decimal_amended[of "PyFloat (Fin 3)"] by simp
  have e: "convert_european_decimal (PyInt 7) = Inr (Fin 7)"
    using convert_european_decimal_amended[of "PyInt 7"] by simp
  have f: "convert_european_decimal (PyInt (- (10 ^ 400))) =
      Inl (OverflowError ''int too large to convert to float'')"
    using convert_european_decimal_amended[of "PyInt (- (10 ^ 400))"] by simp
  show ?thesis
    unfolding a b c d e f by (simp add: text_eval float_eval)
qed

text \<open>
  C4, as the claim words it, fails at the int \<open>2 ** 1024\<close>: the claim has the function
  never raise, while \<open>float(value)\<close>, which stands before the \<open>try\<close>, raises
  \<open>OverflowError\<close>.
\<close>

theorem convert_european_decimal_raises_counterexample:
  "convert_european_decimal (PyInt (2 ^ 1024)) =
     Inl (OverflowError ''int too large to convert to float'')"
  by (simp add: convert_european_decimal_PyInt float_of_int_range)

text \<open>
  C2. \<open>filter_data\<close> returns exactly the rows that satisfy every supplied predicate: a
  list that is \<open>None\<close> or empty, a minimum that is not greater than zero, and a flag that
  is false constrain nothing. With every predicate omitted, or every list empty, the
  result is the input. A price range with finite bounds keeps exactly the rows whose
  price lies between the bounds, both bounds included.
\<close>

theorem filter_data_conjunction:
  "filter_data df cities areas room_types price_range min_reviews min_rating
       guest_favourites_only certified_hosts_only =
     filter (\<lambda>r. (\<forall>l. cities = Some l \<and> l \<noteq> [] \<longrightarrow> city r \<in> set l)
                \<and> (\<forall>l. areas = Some l \<and> l \<noteq> [] \<longrightarrow> area r \<in> set l)
                \<and> (\<forall>l. room_types = Some l \<and> l \<noteq> [] \<longrightarrow> room_type_decoded r \<in> set l)
                \<and> (\<forall>lo hi. price_range = Some (lo, hi) \<longrightarrow>
                      fge (price_clean r) lo \<and> fle (price_clean r) hi)
                \<and> (min_reviews > 0 \<longrightarrow>
                      fge (total_reviewers_number r) (Fin (of_int min_reviews)))
                \<and> (fgt min_rating (Fin 0) \<longrightarrow> fge (consumer_clean r) min_rating)
                \<and> (guest_favourites_only \<longrightarrow> guest_favourite r)
                \<and> (certified_hosts_only \<longrightarrow> host_certified r)) df
   \<and> filter_data df None None None None 0 (Fin 0) False False = df
   \<and> filter_data df (Some []) (Some []) (Some []) None 0 (Fin 0) False False = df
   \<and> filter_data df None None None (Some (Fin lo, Fin hi)) 0 (Fin 0) False False =
       filter (\<lambda>r. \<exists>p. price_clean r = Fin p \<and> lo \<le> p \<and> p \<le> hi) df"
proof -
  have "(fge x (Fin lo) \<and> fle x (Fin hi)) = (\<exists>p. x = Fin p \<and> lo \<le> p \<and> p \<le> hi)" for x
    by (cases x) (auto simp: fge_def)
  then have "filter_data df None None None (Some (Fin lo, Fin hi)) 0 (Fin 0) False False =
       filter (\<lambda>r. \<exists>p. price_clean r = Fin p \<and> lo \<le> p \<and> p \<le> hi) df"
    by (simp add: filter_data_eq fgt_def)
  moreover have "filter_data df None None None None 0 (Fin 0) False False = df"
    by (simp add: filter_data_eq fgt_def)
  moreover have
    "filter_data df (Some []) (Some []) (Some []) None 0 (Fin 0) False False = df"
    by (simp add: filter_data_eq fgt_def)
  ultimately show ?thesis
    using filter_data_eq[of df cities areas room_types price_range min_reviews min_rating
        guest_favourites_only certified_hosts_only]
    by simp
qed

theorem filter_data_conjunction_witness:
  "filter_data scenario_df (Some [Some ''Tokyo'', Some ''Sydney'']) (Some []) None
       (Some (Fin 60, Fin 1250)) 0 (Fin 4) False False = [scenario_clean1, scenario_clean3]
   \<and> filter_data scenario_df None None None (Some (Fin 60, Fin 80)) 0 (Fin 0) False False =
       [scenario_clean2, scenario_clean3]"
proof -
  note t = filter_data_conjunction[of scenario_df "Some [Some ''Tokyo'', Some ''Sydney'']"
      "Some []" None "Some (Fin 60, Fin 1250)" 0 "Fin 4" False False 60 80]
  show ?thesis
    unfolding conjunct1[OF t] conjunct2[OF conjunct2[OF conjunct2[OF t]]]
    by (simp add: row_eval fge_def fgt_def)
qed

text \<open>
  C9. \<open>filter_data\<close> never assigns its argument: at the end of the run \<open>df\<close> is what it
  was. The result is a subsequence of the input, so its rows are input rows in their
  original order, none more often than in the input. The result may be empty, for
  example when no row is of a certified host and only those are asked for; that is a
  result like any other.
\<close>

theorem filter_data_frame:
  "st_df (filter_data_run df cities areas room_types price_range min_reviews min_rating
            guest_favourites_only certified_hosts_only) = df
   \<and> subseq (filter_data df cities areas room_types price_range min_reviews min_rating
               guest_favourites_only certified_hosts_only) df
   \<and> mset (filter_data df cities areas room_types price_range min_reviews min_rating
             guest_favourites_only certified_hosts_only) \<subseteq># mset df
   \<and> set (filter_data df cities areas room_types price_range min_reviews min_rating
            guest_favourites_only certified_hosts_only) \<subseteq> set df
   \<and> (distinct df \<longrightarrow>
        distinct (filter_data df cities areas room_types price_range min_reviews min_rating
                    guest_favourites_only certified_hosts_only))
   \<and> ((\<forall>r \<in> set df. \<not> host_certified r) \<longrightarrow>
        filter_data df cities areas room_types price_range min_reviews min_rating
          guest_favourites_only True = [])"
proof -
  have "(\<forall>r \<in> set df. \<not> host_certified r) \<longrightarrow>
        filter_data df cities areas room_types price_range min_reviews min_rating
          guest_favourites_only True = []"
    by (simp add: filter_data_eq)
  moreover have
    "st_df (filter_data_run df cities areas room_types price_range min_reviews min_rating
              guest_favourites_only certified_hosts_only) = df"
    by (simp add: filter_data_run_eq)
  ultimately show ?thesis
    unfolding filter_data_eq[of df cities areas room_types price_range min_reviews min_rating
        guest_favourites_only certified_hosts_only]
    by simp
qed

theorem filter_data_frame_witness:
  "distinct scenario_df
   \<and> \<not> host_certified scenario_clean2 \<and> \<not> host_certified scenario_clean3
   \<and> filter_data [scenario_clean2, scenario_clean3] None None None None 0 (Fin 0) False True = []
   \<and> distinct (filter_data scenario_df None None None None 0 (Fin 0) True False)
   \<and> subseq (filter_data scenario_df None None None None 0 (Fin 0) True False) scenario_df"
proof -
  have d: "distinct scenario_df"
    by (simp add: row_eval)
  have c: "\<forall>r \<in> set [scenario_clean2, scenario_clean3]. \<not> host_certified r"
    by (simp add: row_eval)
  note t1 = filter_data_frame[of scenario_df None None None None 0 "Fin 0" True False]
  note t2 = filter_data_frame[of "[scenario_clean2, scenario_clean3]" None None None None 0
      "Fin 0" False False]
  from t1 d have "distinct (filter_data scenario_df None None None None 0 (Fin 0) True False)"
    by blast
  moreover from t1
  have "subseq (filter_data scenario_df None None None None 0 (Fin 0) True False) scenario_df"
    by blast
  moreover from t2 c
  have "filter_data [scenario_clean2, scenario_clean3] None None None None 0 (Fin 0) False True = []"
    by blast
  ultimately show ?thesis
    using d c by simp
qed

text \<open>
  C10. A row that \<open>filter_data\<close> keeps has a price when a price range is supplied, a
  rating when the minimum rating is greater than zero, and a review count when the
  minimum review count is greater than zero: a row whose field is the missing sentinel
  NaN is excluded by the threshold on that field.
\<close>

theorem filter_data_missing_excluded:
  "r \<in> set (filter_data df cities areas room_types price_range min_reviews min_rating
               guest_favourites_only certified_hosts_only) \<Longrightarrow>
   (price_range \<noteq> None \<longrightarrow> price_clean r \<noteq> NaN)
   \<and> (fgt min_rating (Fin 0) \<longrightarrow> consumer_clean r \<noteq> NaN)
   \<and> (min_reviews > 0 \<longrightarrow> total_reviewers_number r \<noteq> NaN)"
proof -
  assume "r \<in> set (filter_data df cities areas room_types price_range min_reviews min_rating
               guest_favourites_only certified_hosts_only)"
  then have k: "\<forall>lo hi. price_range = Some (lo, hi) \<longrightarrow>
        fge (price_clean r) lo \<and> fle (price_clean r) hi"
    and m: "min_reviews > 0 \<longrightarrow> fge (total_reviewers_number r) (Fin (of_int min_reviews))"
    and n: "fgt min_rating (Fin 0) \<longrightarrow> fge (consumer_clean r) min_rating"
    unfolding filter_data_eq by simp_all
  have "price_range \<noteq> None \<longrightarrow> price_clean r \<noteq> NaN"
    using k fle_NaN by (cases price_range) auto
  moreover have "fgt min_rating (Fin 0) \<longrightarrow> consumer_clean r \<noteq> NaN"
    using n fle_NaN by (auto simp: fge_def)
  moreover have "min_reviews > 0 \<longrightarrow> total_reviewers_number r \<noteq> NaN"
    using m fle_NaN by (auto simp: fge_def)
  ultimately show ?thesis
    by blast
qed

theorem filter_data_missing_excluded_witness:
  "scenario_clean1 \<in> set (filter_data scenario_df None None None (Some (Fin 0, Fin 2000)) 5
                             (Fin 5) False False)
   \<and> price_clean scenario_clean1 \<noteq> NaN
   \<and> consumer_clean scenario_clean1 \<noteq> NaN
   \<and> total_reviewers_number scenario_clean1 \<noteq> NaN
   \<and> total_reviewers_number scenario_clean3 = NaN
   \<and> scenario_clean3 \<notin> set (filter_data scenario_df None None None None 1 (Fin 0) False False)"
proof -
  have a: "scenario_clean1 \<in> set (filter_data scenario_df None None None
      (Some (Fin 0, Fin 2000)) 5 (Fin 5) False False)"
    by (simp add: filter_data_eq row_eval fge_def fgt_def)
  have b: "total_reviewers_number scenario_clean3 = NaN"
    by (simp add: row_eval)
  have c: "scenario_clean3 \<notin> set (filter_data scenario_df None None None None 1 (Fin 0)
      False False)"
    using filter_data_missing_excluded[of scenario_clean3 scenario_df None None None None 1
        "Fin 0" False False] b
    by auto
  show ?thesis
    using filter_data_missing_excluded[OF a] a b c by (simp add: fgt_def)
qed

text \<open>
  C1. When the loader returns a frame, its rows are the rows of the file in their order.
  A row whose city is a key of \<open>CORRECT_CITY_AREA\<close> has the area of the table, whatever
  the file said; a row whose city is missing or is no key of the table keeps the area of
  the file. The \<open>unique_areas\<close> entry of the statistics is \<open>sorted\<close> applied to the
  distinct areas of the frame, that is of the corrected areas: it holds each of them once
  and its strings are in ascending order.
\<close>

theorem area_corrected:
  assumes "load_and_clean_data read_csv tn path = Inr (df, st)"
  shows "\<exists>raw. read_csv path = Inr raw \<and> length df = length raw
     \<and> (\<forall>i<length raw.
           city (df ! i) = raw_city (raw ! i)
           \<and> area (df ! i) =
               (case raw_city (raw ! i) of
                  None \<Rightarrow> raw_area (raw ! i)
                | Some c \<Rightarrow> (case CORRECT_CITY_AREA c of
                              None \<Rightarrow> raw_area (raw ! i)
                            | Some a \<Rightarrow> Some a)))
     \<and> py_sorted (py_unique (map area df)) = Inr (stats_unique_areas st)
     \<and> set (stats_unique_areas st) = set (map area df)
     \<and> distinct (stats_unique_areas st)
     \<and> sorted (List.map_filter (\<lambda>x. x) (stats_unique_areas st))"
proof -
  from load_and_clean_data_rows[OF assms] obtain raw derived where
    r: "read_csv path = Inr raw" and len: "length df = length raw"
    and rows: "\<forall>i<length raw. derive_fields tn (raw ! i) = Inr (derived ! i)
            \<and> df ! i = fill_missing (derived ! i)"
    and s: "calculate_statistics (length raw) df = Inr st"
    by blast
  have a: "city (df ! i) = raw_city (raw ! i)
           \<and> area (df ! i) =
               (case raw_city (raw ! i) of
                  None \<Rightarrow> raw_area (raw ! i)
                | Some c \<Rightarrow> (case CORRECT_CITY_AREA c of
                              None \<Rightarrow> raw_area (raw ! i)
                            | Some a \<Rightarrow> Some a))" if "i < length raw" for i
  proof -
    from rows that have d: "derive_fields tn (raw ! i) = Inr (derived ! i)"
      and f: "df ! i = fill_missing (derived ! i)"
      by simp_all
    from derive_fields_Inr[OF d] show ?thesis
      unfolding f
      by (auto simp: fill_missing_def fillna_series_def map_city_area_def split: option.splits)
  qed
  from calculate_statistics_Inr[OF s]
  have u: "py_sorted (py_unique (map area df)) = Inr (stats_unique_areas st)"
    by simp
  from py_sorted_Inr[OF u]
  have "set (stats_unique_areas st) = set (map area df)"
    and "distinct (stats_unique_areas st)"
    and "sorted (List.map_filter (\<lambda>x. x) (stats_unique_areas st))"
    by (simp_all add: set_py_unique distinct_py_unique)
  then show ?thesis
    using r len a u by blast
qed

theorem area_corrected_witness:
  "load_and_clean_data scenario_read_csv no_number ''data/Airbnb_site_hotel_new.csv'' =
     Inr (scenario_df, scenario_stats)
   \<and> raw_area (scenario_raw ! 0) = Some ''Europe'' \<and> area (scenario_df ! 0) = Some ''Asia''
   \<and> raw_area (scenario_raw ! 1) = Some ''Oceania'' \<and> area (scenario_df ! 1) = Some ''Oceania''
   \<and> raw_area (scenario_raw ! 2) = Some ''Europe'' \<and> area (scenario_df ! 2) = Some ''Oceania''
   \<and> set (stats_unique_areas scenario_stats) = {Some ''Asia'', Some ''Oceania''}"
proof -
  from area_corrected[OF scenario_load] obtain raw where
    r: "scenario_read_csv ''data/Airbnb_site_hotel_new.csv'' = Inr raw"
    and rows: "\<forall>i<length raw.
           city (scenario_df ! i) = raw_city (raw ! i)
           \<and> area (scenario_df ! i) =
               (case raw_city (raw ! i) of
                  None \<Rightarrow> raw_area (raw ! i)
                | Some c \<Rightarrow> (case CORRECT_CITY_AREA c of
                              None \<Rightarrow> raw_area (raw ! i)
                            | Some a \<Rightarrow> Some a))"
    and u: "set (stats_unique_areas scenario_stats) = set (map area scenario_df)"
    by blast
  from r have raw: "raw = scenario_raw"
    by (simp add: scenario_read_csv_def)
  note w = rows[unfolded raw, rule_format]
  have "area (scenario_df ! 0) = Some ''Asia''"
    using w[of 0] by (simp add: scenario_raw_def scenario_row1_def CORRECT_CITY_AREA_def)
  moreover have "area (scenario_df ! 1) = Some ''Oceania''"
    using w[of 1] by (simp add: scenario_raw_def scenario_row2_def CORRECT_CITY_AREA_def)
  moreover have "area (scenario_df ! 2) = Some ''Oceania''"
    using w[of 2] by (simp add: scenario_raw_def scenario_row3_def CORRECT_CITY_AREA_def)
  moreover have "set (stats_unique_areas scenario_stats) = {Some ''Asia'', Some ''Oceania''}"
    unfolding u by (auto simp: row_eval)
  moreover have "raw_area (scenario_raw ! 0) = Some ''Europe''"
    and "raw_area (scenario_raw ! 1) = Some ''Oceania''"
    and "raw_area (scenario_raw ! 2) = Some ''Europe''"
    by (simp_all add: row_eval)
  ultimately show ?thesis
    using scenario_load by simp
qed

text \<open>
  C6. \<open>room_type_decoded\<close> is a string in every row of a frame the loader returns: the
  label of the table for the codes 1, 2, 3 and 4, and \<open>"Unknown"\<close> for every other
  number, for text and for a missing code.
\<close>

theorem room_type_decoded_never_missing:
  assumes "load_and_clean_data read_csv tn path = Inr (df, st)"
  shows "\<exists>raw. read_csv path = Inr raw \<and> length df = length raw
     \<and> (\<forall>i<length raw.
           room_type_decoded (df ! i) =
             (case raw_room_type (raw ! i) of
                Num (Fin q) \<Rightarrow>
                  (if q = 1 then ''Private Room'' else if q = 2 then ''Entire Home/Apt''
                   else if q = 3 then ''Shared Room'' else if q = 4 then ''Hotel Room''
                   else ''Unknown'')
              | _ \<Rightarrow> ''Unknown''))
     \<and> (\<forall>r \<in> set df.
           room_type_decoded r \<in>
             {''Private Room'', ''Entire Home/Apt'', ''Shared Room'', ''Hotel Room'',
              ''Unknown''})"
proof -
  from load_and_clean_data_rows[OF assms] obtain raw derived where
    r: "read_csv path = Inr raw" and len: "length df = length raw"
    and rows: "\<forall>i<length raw. derive_fields tn (raw ! i) = Inr (derived ! i)
            \<and> df ! i = fill_missing (derived ! i)"
    by blast
  have a: "room_type_decoded (df ! i) =
             (case raw_room_type (raw ! i) of
                Num (Fin q) \<Rightarrow>
                  (if q = 1 then ''Private Room'' else if q = 2 then ''Entire Home/Apt''
                   else if q = 3 then ''Shared Room'' else if q = 4 then ''Hotel Room''
                   else ''Unknown'')
              | _ \<Rightarrow> ''Unknown'')" if "i < length raw" for i
  proof -
    from rows that have d: "derive_fields tn (raw ! i) = Inr (derived ! i)"
      and f: "df ! i = fill_missing (derived ! i)"
      by simp_all
    from derive_fields_Inr[OF d] show ?thesis
      unfolding f map_room_type_cases[symmetric]
      by (auto simp: fill_missing_def)
  qed
  have "room_type_decoded x \<in>
             {''Private Room'', ''Entire Home/Apt'', ''Shared Room'', ''Hotel Room'',
              ''Unknown''}" if "x \<in> set df" for x
  proof -
    from that obtain i where i: "i < length df" and x: "x = df ! i"
      by (auto simp: in_set_conv_nth)
    from a[of i] i len show ?thesis
      unfolding x by (auto split: cell.splits pyfloat.splits)
  qed
  then show ?thesis
    using r len a by blast
qed

theorem room_type_decoded_never_missing_witness:
  "load_and_clean_data scenario_read_csv no_number ''data/Airbnb_site_hotel_new.csv'' =
     Inr (scenario_df, scenario_stats)
   \<and> raw_room_type (scenario_raw ! 2) = Num (Fin 7)
   \<and> room_type_decoded (scenario_df ! 2) = ''Unknown''
   \<and> room_type_decoded (scenario_df ! 0) = ''Private Room''"
proof -
  from room_type_decoded_never_missing[OF scenario_load] obtain raw where
    r: "scenario_read_csv ''data/Airbnb_site_hotel_new.csv'' = Inr raw"
    and rows: "\<forall>i<length raw.
           room_type_decoded (scenario_df ! i) =
             (case raw_room_type (raw ! i) of
                Num (Fin q) \<Rightarrow>
                  (if q = 1 then ''Private Room'' else if q = 2 then ''Entire Home/Apt''
                   else if q = 3 then ''Shared Room'' else if q = 4 then ''Hotel Room''
                   else ''Unknown'')
              | _ \<Rightarrow> ''Unknown'')"
    by blast
  from r have raw: "raw = scenario_raw"
    by (simp add: scenario_read_csv_def)
  note w = rows[unfolded raw, rule_format]
  have "room_type_decoded (scenario_df ! 2) = ''Unknown''"
    using w[of 2] by (simp add: scenario_raw_def scenario_row3_def)
  moreover have "room_type_decoded (scenario_df ! 0) = ''Private Room''"
    using w[of 0] by (simp add: scenario_raw_def scenario_row1_def)
  moreover have "raw_room_type (scenario_raw ! 2) = Num (Fin 7)"
    by (simp add: row_eval)
  ultimately show ?thesis
    using scenario_load by simp
qed

text \<open>
  C7. In every row of a frame the loader returns, \<open>revenue_estimate\<close> is \<open>price_clean\<close>
  times the \<open>sales\<close> value of the file. The row is the result of \<open>fill_missing\<close> on the
  row that has all derived fields computed: missing \<open>bedrooms\<close> become 0, missing
  \<open>bathrooms_clean\<close> become 1, missing \<open>beds\<close> become 1, and no other field, derived or
  not, is changed by that last step.
\<close>

theorem revenue_estimate_and_fills:
  assumes "load_and_clean_data read_csv tn path = Inr (df, st)"
  shows "\<exists>raw derived. read_csv path = Inr raw
     \<and> length df = length raw \<and> length derived = length raw
     \<and> (\<forall>i<length raw.
           derive_fields tn (raw ! i) = Inr (derived ! i)
           \<and> df ! i = fill_missing (derived ! i)
           \<and> price_clean (df ! i) = price_value (raw_price (raw ! i))
           \<and> sales (df ! i) = raw_sales (raw ! i)
           \<and> revenue_estimate (df ! i) = fmul (price_clean (df ! i)) (raw_sales (raw ! i))
           \<and> bedrooms (df ! i) = fillna (to_numeric tn (raw_bedrooms (raw ! i))) (Fin 0)
           \<and> bathrooms_clean (df ! i) = fillna (decimal_value (raw_bathrooms (raw ! i))) (Fin 1)
           \<and> beds (df ! i) = fillna (to_numeric tn (raw_beds (raw ! i))) (Fin 1)
           \<and> df ! i = (derived ! i)\<lparr> bedrooms := bedrooms (df ! i),
                                     bathrooms_clean := bathrooms_clean (df ! i),
                                     beds := beds (df ! i) \<rparr>
           \<and> revenue_estimate (df ! i) = revenue_estimate (derived ! i))"
proof -
  from load_and_clean_data_rows[OF assms] obtain raw derived where
    r: "read_csv path = Inr raw" and len: "length df = length raw"
    and len': "length derived = length raw"
    and rows: "\<forall>i<length raw. derive_fields tn (raw ! i) = Inr (derived ! i)
            \<and> df ! i = fill_missing (derived ! i)"
    by blast
  have a: "derive_fields tn (raw ! i) = Inr (derived ! i)
           \<and> df ! i = fill_missing (derived ! i)
           \<and> price_clean (df ! i) = price_value (raw_price (raw ! i))
           \<and> sales (df ! i) = raw_sales (raw ! i)
           \<and> revenue_estimate (df ! i) = fmul (price_clean (df ! i)) (raw_sales (raw ! i))
           \<and> bedrooms (df ! i) = fillna (to_numeric tn (raw_bedrooms (raw ! i))) (Fin 0)
           \<and> bathrooms_clean (df ! i) = fillna (decimal_value (raw_bathrooms (raw ! i))) (Fin 1)
           \<and> beds (df ! i) = fillna (to_numeric tn (raw_beds (raw ! i))) (Fin 1)
           \<and> df ! i = (derived ! i)\<lparr> bedrooms := bedrooms (df ! i),
                                     bathrooms_clean := bathrooms_clean (df ! i),
                                     beds := beds (df ! i) \<rparr>
           \<and> revenue_estimate (df ! i) = revenue_estimate (derived ! i)"
    if "i < length raw" for i
  proof -
    from rows that have d: "derive_fields tn (raw ! i) = Inr (derived ! i)"
      and f: "df ! i = fill_missing (derived ! i)"
      by simp_all
    from derive_fields_Inr[OF d] obtain hs where
      l: "derived ! i =
         \<lparr> id_col = raw_id (raw ! i),
           host_id = raw_host_id (raw ! i),
           city = raw_city (raw ! i),
           area = fillna_series (map_city_area (raw_city (raw ! i))) (raw_area (raw ! i)),
           room_type = raw_room_type (raw ! i),
           price = raw_price (raw ! i),
           bathrooms = raw_bathrooms (raw ! i),
           consumer = raw_consumer (raw ! i),
           host_response_rate = raw_host_response_rate (raw ! i),
           host_acceptance_rate = raw_host_acceptance_rate (raw ! i),
           sales = raw_sales (raw ! i),
           host_since = raw_host_since (raw ! i),
           host_Certification = raw_host_Certification (raw ! i),
           guest_favourite_col = raw_guest_favourite (raw ! i),
           accommodates = to_numeric tn (raw_accommodates (raw ! i)),
           bedrooms = to_numeric tn (raw_bedrooms (raw ! i)),
           beds = to_numeric tn (raw_beds (raw ! i)),
           total_reviewers_number = to_numeric tn (raw_total_reviewers_number (raw ! i)),
           price_clean = price_value (raw_price (raw ! i)),
           bathrooms_clean = decimal_value (raw_bathrooms (raw ! i)),
           consumer_clean = decimal_value (raw_consumer (raw ! i)),
           host_response_rate_clean = decimal_value (raw_host_response_rate (raw ! i)),
           host_acceptance_rate_clean = decimal_value (raw_host_acceptance_rate (raw ! i)),
           room_type_decoded = fillna_str (map_room_type (raw_room_type (raw ! i))) ''Unknown'',
           revenue_estimate = fmul (price_value (raw_price (raw ! i))) (raw_sales (raw ! i)),
           host_since_clean = hs,
           city_lat = coord_lat (raw_city (raw ! i)),
           city_lon = coord_lon (raw_city (raw ! i)),
           host_certified = fillna0_astype_bool (raw_host_Certification (raw ! i)),
           guest_favourite = fillna0_astype_bool (raw_guest_favourite (raw ! i)) \<rparr>"
      by blast
    have o: "df ! i = (derived ! i)\<lparr> bedrooms := bedrooms (df ! i),
                                     bathrooms_clean := bathrooms_clean (df ! i),
                                     beds := beds (df ! i) \<rparr>"
      unfolding f by (rule fill_missing_other)
    have "price_clean (df ! i) = price_value (raw_price (raw ! i))"
      and "sales (df ! i) = raw_sales (raw ! i)"
      and "revenue_estimate (df ! i) = fmul (price_clean (df ! i)) (raw_sales (raw ! i))"
      and "bedrooms (df ! i) = fillna (to_numeric tn (raw_bedrooms (raw ! i))) (Fin 0)"
      and "bathrooms_clean (df ! i) = fillna (decimal_value (raw_bathrooms (raw ! i))) (Fin 1)"
      and "beds (df ! i) = fillna (to_numeric tn (raw_beds (raw ! i))) (Fin 1)"
      and "revenue_estimate (df ! i) = revenue_estimate (derived ! i)"
      unfolding f by (simp_all add: fill_missing_def l)
    then show ?thesis
      using d f o by blast
  qed
  show ?thesis
    using r len len' a by blast
qed

theorem revenue_estimate_and_fills_witness:
  "load_and_clean_data scenario_read_csv no_number ''data/Airbnb_site_hotel_new.csv'' =
     Inr (scenario_df, scenario_stats)
   \<and> revenue_estimate (scenario_df ! 0) = Fin 125000
   \<and> raw_bedrooms (scenario_raw ! 1) = Num NaN \<and> bedrooms (scenario_df ! 1) = Fin 0
   \<and> revenue_estimate (scenario_df ! 1) = Fin 16000
   \<and> raw_sales (scenario_raw ! 2) = NaN \<and> revenue_estimate (scenario_df ! 2) = NaN"
proof -
  from revenue_estimate_and_fills[OF scenario_load] obtain raw where
    r: "scenario_read_csv ''data/Airbnb_site_hotel_new.csv'' = Inr raw"
    and rows: "\<forall>i<length raw.
           price_clean (scenario_df ! i) = price_value (raw_price (raw ! i))
           \<and> revenue_estimate (scenario_df ! i) =
               fmul (price_clean (scenario_df ! i)) (raw_sales (raw ! i))
           \<and> bedrooms (scenario_df ! i) =
               fillna (to_numeric no_number (raw_bedrooms (raw ! i))) (Fin 0)"
    by blast
  from r have raw: "raw = scenario_raw"
    by (simp add: scenario_read_csv_def)
  note w = rows[unfolded raw, rule_format]
  have p0: "price_value (Str ''1,250'') = Fin 1250" and p1: "price_value (Str ''$80'') = Fin 80"
    by (simp_all add: price_value_def text_eval float_eval)
  have "revenue_estimate (scenario_df ! 0) = Fin 125000"
    using w[of 0] by (simp add: scenario_raw_def scenario_row1_def p0)
  moreover have "revenue_estimate (scenario_df ! 1) = Fin 16000"
    and "bedrooms (scenario_df ! 1) = Fin 0"
    using w[of 1] by (simp_all add: scenario_raw_def scenario_row2_def p1 fillna_def to_numeric_def)
  moreover have "revenue_estimate (scenario_df ! 2) = NaN"
    using w[of 2] by (simp add: scenario_raw_def scenario_row3_def price_value_def)
  moreover have "raw_bedrooms (scenario_raw ! 1) = Num NaN"
    and "raw_sales (scenario_raw ! 2) = NaN"
    by (simp_all add: row_eval)
  ultimately show ?thesis
    using scenario_load by simp
qed

text \<open>
  C8. When \<open>pd.read_csv\<close> raises, \<open>load_and_clean_data\<close> raises that same exception and
  returns nothing. \<open>load_data\<close> tries the second path only after \<open>FileNotFoundError\<close> at
  the first; when no path can be read it returns \<open>(None, None, message)\<close>. In every case
  it returns either a frame with its statistics and no message, or a message with neither,
  and on a message \<open>main\<close> shows an error and returns without building the dashboard.
\<close>

theorem load_failure_surfaces:
  "(read_csv path = Inl e \<longrightarrow> load_and_clean_data read_csv tn path = Inl e)
   \<and> (read_csv ''/app/data/Airbnb_site_hotel_new.csv'' = Inl e1
        \<and> \<not> is_FileNotFoundError e1 \<longrightarrow>
        load_data read_csv tn = (None, None, Some (str_of_error e1)))
   \<and> (read_csv ''/app/data/Airbnb_site_hotel_new.csv'' = Inl e1
        \<and> is_FileNotFoundError e1
        \<and> read_csv ''data/Airbnb_site_hotel_new.csv'' = Inl e2 \<longrightarrow>
        load_data read_csv tn = (None, None, Some (str_of_error e2)))
   \<and> ((\<exists>df st. load_data read_csv tn = (Some df, Some st, None))
        \<or> (\<exists>m. load_data read_csv tn = (None, None, Some m)))
   \<and> (load_data read_csv tn = (None, None, Some m) \<longrightarrow>
        main_load (load_data read_csv tn) = (if m = [] then NoDataAvailable
                                              else ErrorLoadingData m))"
proof -
  have a: "read_csv p = Inl x \<Longrightarrow> load_and_clean_data read_csv tn p = Inl x" for p x
    by (simp add: load_and_clean_data_def err_bind_def)
  have "(\<exists>df st. load_data read_csv tn = (Some df, Some st, None))
        \<or> (\<exists>m. load_data read_csv tn = (None, None, Some m))"
    by (auto simp: load_data_def split: sum.splits)
  moreover have "load_data read_csv tn = (None, None, Some m) \<longrightarrow>
        main_load (load_data read_csv tn) = (if m = [] then NoDataAvailable
                                              else ErrorLoadingData m)"
    by (simp add: main_load_def truthy_str_def)
  ultimately show ?thesis
    using a by (auto simp: load_data_def)
qed

theorem load_failure_surfaces_witness:
  "load_data (\<lambda>p. Inl (FileNotFoundError ''No such file or directory'')) no_number =
     (None, None, Some ''No such file or directory'')
   \<and> main_load (load_data (\<lambda>p. Inl (FileNotFoundError ''No such file or directory'')) no_number) =
       ErrorLoadingData ''No such file or directory''
   \<and> load_data (\<lambda>p. Inl (ParserError ''Error tokenizing data'')) no_number =
       (None, None, Some ''Error tokenizing data'')
   \<and> load_and_clean_data (\<lambda>p. Inl (EmptyDataError ''No columns to parse from file''))
        no_number ''data.csv'' = Inl (EmptyDataError ''No columns to parse from file'')"
proof -
  note t1 = load_failure_surfaces[of "\<lambda>p. Inl (FileNotFoundError ''No such file or directory'')"
      "''data.csv''" "FileNotFoundError ''No such file or directory''" no_number
      "FileNotFoundError ''No such file or directory''"
      "FileNotFoundError ''No such file or directory''" "''No such file or directory''"]
  note t2 = load_failure_surfaces[of "\<lambda>p. Inl (ParserError ''Error tokenizing data'')"
      "''data.csv''" "ParserError ''Error tokenizing data''" no_number
      "ParserError ''Error tokenizing data''"
      "ParserError ''Error tokenizing data''" "''Error tokenizing data''"]
  note t3 = load_failure_surfaces[of
      "\<lambda>p. Inl (EmptyDataError ''No columns to parse from file'')"
      "''data.csv''" "EmptyDataError ''No columns to parse from file''" no_number
      "EmptyDataError ''No columns to parse from file''"
      "EmptyDataError ''No columns to parse from file''" "''No columns to parse from file''"]
  from t1 have a: "load_data (\<lambda>p. Inl (FileNotFoundError ''No such file or directory''))
      no_number = (None, None, Some ''No such file or directory'')"
    by simp
  from t1 a have b: "main_load (load_data
      (\<lambda>p. Inl (FileNotFoundError ''No such file or directory'')) no_number) =
       ErrorLoadingData ''No such file or directory''"
    by simp
  from t2 have c: "load_data (\<lambda>p. Inl (ParserError ''Error tokenizing data'')) no_number =
       (None, None, Some ''Error tokenizing data'')"
    by simp
  from t3 have d: "load_and_clean_data
      (\<lambda>p. Inl (EmptyDataError ''No columns to parse from file''))
        no_number ''data.csv'' = Inl (EmptyDataError ''No columns to parse from file'')"
    by simp
  show ?thesis
    using a b c d by simp
qed

text \<open>
  C5. On the empty frame both metric functions return without raising: every number is
  zero and every city is \<open>"N/A"\<close>. On a frame with rows, the best-value city is
  \<open>idxmax\<close> over the cities of \<open>best_value\<close> of their rows, and \<open>best_value\<close> is 0,
  with no division, for rows whose mean price is not greater than zero (zero, negative or
  missing).
\<close>

theorem metrics_on_empty:
  "calculate_guest_metrics [] =
     Inr \<lparr> guest_total_properties = 0, guest_avg_price = Fin 0, guest_avg_rating = Fin 0,
           guest_pct_favourites = Fin 0, guest_most_popular_city = Some ''N/A'',
           guest_best_value_city = Some ''N/A'' \<rparr>
   \<and> calculate_host_metrics [] =
     Inr \<lparr> host_total_revenue = Fin 0, host_avg_occupancy = Fin 0, host_total_hosts = 0,
           host_avg_listings_per_host = Fin 0, host_pct_certified = Fin 0,
           host_best_city = Some ''N/A'' \<rparr>
   \<and> (\<not> fgt (fmean (map price_clean x)) (Fin 0) \<longrightarrow> best_value x = Fin 0)
   \<and> (df \<noteq> [] \<and> calculate_guest_metrics df = Inr m \<longrightarrow>
        idxmax (map (\<lambda>(k, x). (k, best_value x)) (groupby_city df)) =
          Inr (guest_best_value_city m))"
proof -
  have "df \<noteq> [] \<and> calculate_guest_metrics df = Inr m \<longrightarrow>
        idxmax (map (\<lambda>(k, x). (k, best_value x)) (groupby_city df)) =
          Inr (guest_best_value_city m)"
    by (auto simp: calculate_guest_metrics_def err_bind_def split: sum.splits)
  moreover have "\<not> fgt (fmean (map price_clean x)) (Fin 0) \<longrightarrow> best_value x = Fin 0"
    by (simp add: best_value_def)
  ultimately show ?thesis
    by (simp add: calculate_guest_metrics_def calculate_host_metrics_def err_bind_def)
qed

theorem metrics_on_empty_witness:
  "\<not> fgt (fmean (map price_clean [scenario_clean3\<lparr> price_clean := Fin 0 \<rparr>])) (Fin 0)
   \<and> best_value [scenario_clean3\<lparr> price_clean := Fin 0 \<rparr>] = Fin 0
   \<and> calculate_guest_metrics [scenario_clean3\<lparr> price_clean := Fin 0 \<rparr>, scenario_clean1] =
       Inr \<lparr> guest_total_properties = 2, guest_avg_price = Fin 625,
             guest_avg_rating = Fin 5.65, guest_pct_favourites = Fin 50,
             guest_most_popular_city = Some ''Sydney'',
             guest_best_value_city = Some ''Tokyo'' \<rparr>
   \<and> idxmax (map (\<lambda>(k, x). (k, best_value x))
               (groupby_city [scenario_clean3\<lparr> price_clean := Fin 0 \<rparr>, scenario_clean1])) =
       Inr (Some ''Tokyo'')"
proof -
  let ?free = "scenario_clean3\<lparr> price_clean := Fin 0 \<rparr>"
  let ?m = "\<lparr> guest_total_properties = 2, guest_avg_price = Fin 625,
             guest_avg_rating = Fin 5.65, guest_pct_favourites = Fin 50,
             guest_most_popular_city = Some ''Sydney'',
             guest_best_value_city = Some ''Tokyo'' \<rparr>"
  note t = metrics_on_empty[of "[?free]" "[?free, scenario_clean1]" ?m]
  have a: "\<not> fgt (fmean (map price_clean [?free])) (Fin 0)"
    by (simp add: fmean_def notnan_def fgt_def)
  have s: "sort [''Sydney'', ''Tokyo''] = [''Sydney'', ''Tokyo'']"
    by (simp add: less_eq_char_def less_char_def)
  have g: "groupby_city [?free, scenario_clean1] =
      [(''Sydney'', [?free]), (''Tokyo'', [scenario_clean1])]"
    by (simp add: groupby_city_def List.map_filter_def s scenario_clean1_def scenario_clean3_def)
  have b1: "best_value [?free] = Fin 0"
    using t a by blast
  have b2: "best_value [scenario_clean1] = Fin (13 / 2500)"
    by (simp add: best_value_def fmean_def notnan_def fgt_def scenario_clean1_def)
  have m1: "map (\<lambda>(k, x). (k, best_value x))
        [(''Sydney'', [?free]), (''Tokyo'', [scenario_clean1])] =
      [(''Sydney'', Fin 0), (''Tokyo'', Fin (13 / 2500))]"
    by (simp add: b1 b2)
  have m2: "map (\<lambda>(k, x). (k, Fin (of_nat (length x))))
        [(''Sydney'', [?free]), (''Tokyo'', [scenario_clean1])] =
      [(''Sydney'', Fin 1), (''Tokyo'', Fin 1)]"
    by simp
  have i1: "idxmax [(''Sydney'', Fin 0), (''Tokyo'', Fin (13 / 2500))] = Inr (Some ''Tokyo'')"
    by (simp add: idxmax_def)
  have i2: "idxmax [(''Sydney'', Fin 1), (''Tokyo'', Fin 1)] = Inr (Some ''Sydney'')"
    by (simp add: idxmax_def)
  have p: "fmean (map price_clean [?free, scenario_clean1]) = Fin 625"
    by (simp add: fmean_def notnan_def scenario_clean1_def)
  have q: "fmean (map consumer_clean [?free, scenario_clean1]) = Fin 5.65"
    by (simp add: fmean_def notnan_def scenario_clean1_def scenario_clean3_def)
  have f: "pct_true (map guest_favourite [?free, scenario_clean1]) = Fin 50"
    by (simp add: pct_true_def scenario_clean1_def scenario_clean3_def)
  have c: "calculate_guest_metrics [?free, scenario_clean1] = Inr ?m"
    unfolding calculate_guest_metrics_def g m1 m2 i1 i2 p q f
    by (simp add: err_bind_def)
  have "idxmax (map (\<lambda>(k, x). (k, best_value x)) (groupby_city [?free, scenario_clean1])) =
       Inr (Some ''Tokyo'')"
    using t c by simp
  then show ?thesis
    using a b1 c by simp
qed

end
